theory Spec2Isabelle
  imports Main
begin

section \<open>Strings and exceptions\<close>

text \<open>
  A Python \<open>str\<close> is the list of its code points, each a natural number; \<open>lit\<close> gives
  the \<open>str\<close> of a text of the program, and \<open>ch\<close> the code point of one character.
\<close>

type_synonym str = "nat list"

definition ch :: "char \<Rightarrow> nat" where
  "ch c = of_char c"

definition lit :: "string \<Rightarrow> str" where
  "lit s = map ch s"

text \<open>
  The program raises only \<open>ValueError\<close> by itself (with different messages for a
  malformed value and for a missing entry); indexing an empty list raises
  \<open>IndexError\<close>. An exception is a value carrying its message; the messages of the
  standard library are those of CPython 3.11.
\<close>

datatype error = ValueError str | IndexError str

text \<open>
  The class \<^verbatim>\<open>\d\<close> of a pattern on \<open>str\<close> is the decimal digits of Unicode, not only
  \<open>0\<close> to \<open>9\<close>: they come in runs of ten, from the digit zero of a script to its digit
  nine. \<open>DECIMAL_ZEROS\<close> lists the code points of the zeros (Unicode 14.0, the table of
  CPython 3.11); the first is that of \<open>0\<close>, the second that of ARABIC-INDIC DIGIT ZERO.
  \<open>int\<close> reads each of them as its value.
\<close>

definition DECIMAL_ZEROS :: "nat list" where
  "DECIMAL_ZEROS =
     [48, 1632, 1776, 1984, 2406, 2534, 2662, 2790, 2918, 3046, 3174, 3302, 3430, 3558,
      3664, 3792, 3872, 4160, 4240, 6112, 6160, 6470, 6608, 6784, 6800, 6992, 7088, 7232,
      7248, 42528, 43216, 43264, 43472, 43504, 43600, 44016, 65296, 66720, 68912, 69734,
      69872, 69942, 70096, 70384, 70736, 70864, 71248, 71360, 71472, 71904, 72016, 72784,
      73040, 73120, 92768, 92864, 93008, 120782, 120792, 120802, 120812, 120822, 123200,
      123632, 125264, 130032]"

definition decimal_zero :: "nat \<Rightarrow> nat option" where
  \<comment> \<open>the zero of the run of digits that holds the code point, if one does\<close>
  "decimal_zero c = List.find (\<lambda>z. z \<le> c \<and> c < z + 10) DECIMAL_ZEROS"

definition isdigit :: "nat \<Rightarrow> bool" where
  "isdigit c = (decimal_zero c \<noteq> None)"

definition digit_val :: "nat \<Rightarrow> nat" where
  "digit_val c = (case decimal_zero c of Some z \<Rightarrow> c - z | None \<Rightarrow> 0)"

definition in_class :: "char \<Rightarrow> char \<Rightarrow> nat \<Rightarrow> bool" where
  \<comment> \<open>a character class such as \<open>[1-9]\<close>\<close>
  "in_class lo hi c = (ch lo \<le> c \<and> c \<le> ch hi)"

text \<open>
  The code points that \<open>str.isspace\<close> holds for; \<open>strip\<close> and \<open>split\<close> take the same
  ones for whitespace.
\<close>

definition WHITESPACE :: "nat list" where
  "WHITESPACE =
     [9, 10, 11, 12, 13, 28, 29, 30, 31, 32, 133, 160, 5760, 8192, 8193, 8194, 8195, 8196,
      8197, 8198, 8199, 8200, 8201, 8202, 8232, 8233, 8239, 8287, 12288]"

definition isspace :: "nat \<Rightarrow> bool" where
  "isspace c = (c \<in> set WHITESPACE)"

definition digit_chr :: "nat \<Rightarrow> nat" where
  \<comment> \<open>the character \<open>0\<close> to \<open>9\<close> of the last digit of a number\<close>
  "digit_chr n = ch CHR ''0'' + n mod 10"

text \<open>
  \<open>int(s)\<close> on a group that the date pattern has matched: decimal digits, after a blank
  in the one alternative of the day that has one.
\<close>

definition decimal :: "str \<Rightarrow> nat" where
  "decimal s = foldl (\<lambda>acc c. 10 * acc + digit_val c) 0 s"

definition py_int :: "str \<Rightarrow> nat" where
  "py_int s = decimal (dropWhile (\<lambda>c. c = ch CHR '' '') s)"

text \<open>\<open>str(n)\<close> for a non-negative integer below 100000, as the messages need it.\<close>

definition py_str_nat :: "nat \<Rightarrow> str" where
  "py_str_nat n =
     dropWhile (\<lambda>c. c = ch CHR ''0'')
       [digit_chr (n div 10000), digit_chr (n div 1000), digit_chr (n div 100),
        digit_chr (n div 10)] @ [digit_chr n]"

text \<open>\<open>sep.join(xs)\<close>\<close>

fun join :: "str \<Rightarrow> str list \<Rightarrow> str" where
  "join sep [] = []"
| "join sep [x] = x"
| "join sep (x # y # ys) = x @ sep @ join sep (y # ys)"


section \<open>The \<open>datetime\<close> values of the standard library\<close>

text \<open>
  A naive \<open>datetime\<close>: the proleptic Gregorian date and the time of day, to the
  microsecond. \<open>datetime.today()\<close> reads the clock, time of day included; a reading is
  the parameter \<open>today\<close> of \<open>days_to_birthday\<close>. \<open>strptime\<close> yields midnight of the
  parsed date.
\<close>

record datetime =
  year :: nat
  month :: nat
  day :: nat
  hour :: nat
  minute :: nat
  second :: nat
  microsecond :: nat

definition MINYEAR :: nat where "MINYEAR = 1"
definition MAXYEAR :: nat where "MAXYEAR = 9999"

definition is_leap :: "nat \<Rightarrow> bool" where
  "is_leap y = (y mod 4 = 0 \<and> (y mod 100 \<noteq> 0 \<or> y mod 400 = 0))"

definition DAYS_IN_MONTH :: "nat list" where
  \<comment> \<open>indexed by the month; index 0 is a placeholder\<close>
  "DAYS_IN_MONTH = [0, 31, 28, 31, 30, 31, 30, 31, 31, 30, 31, 30, 31]"

definition DAYS_BEFORE_MONTH :: "nat list" where
  "DAYS_BEFORE_MONTH = [0, 0, 31, 59, 90, 120, 151, 181, 212, 243, 273, 304, 334]"

definition days_in_month :: "nat \<Rightarrow> nat \<Rightarrow> nat" where
  "days_in_month y m = (if m = 2 \<and> is_leap y then 29 else DAYS_IN_MONTH ! m)"

definition days_before_year :: "nat \<Rightarrow> int" where
  "days_before_year yr = (let y = int yr - 1 in y * 365 + y div 4 - y div 100 + y div 400)"

definition days_before_month :: "nat \<Rightarrow> nat \<Rightarrow> int" where
  "days_before_month y m =
     int (DAYS_BEFORE_MONTH ! m) + (if m > 2 \<and> is_leap y then 1 else 0)"

definition ymd2ord :: "nat \<Rightarrow> nat \<Rightarrow> nat \<Rightarrow> int" where
  "ymd2ord y m d = days_before_year y + days_before_month y m + int d"

definition toordinal :: "datetime \<Rightarrow> int" where
  "toordinal t = ymd2ord (year t) (month t) (day t)"

text \<open>
  The check of the date fields that every constructor of a date runs; month and day of
  the values that reach it here are already in \<open>1..12\<close> and \<open>1..31\<close>.
\<close>

definition check_date_fields :: "nat \<Rightarrow> nat \<Rightarrow> nat \<Rightarrow> error option" where
  "check_date_fields y m d =
     (if \<not> (MINYEAR \<le> y \<and> y \<le> MAXYEAR)
        then Some (ValueError (lit ''year '' @ py_str_nat y @ lit '' is out of range''))
      else if \<not> (1 \<le> m \<and> m \<le> 12) then Some (ValueError (lit ''month must be in 1..12''))
      else if \<not> (1 \<le> d \<and> d \<le> days_in_month y m)
        then Some (ValueError (lit ''day is out of range for month''))
      else None)"

text \<open>\<open>t.replace(year=y)\<close>\<close>

definition replace_year :: "datetime \<Rightarrow> nat \<Rightarrow> error + datetime" where
  "replace_year t y =
     (case check_date_fields y (month t) (day t) of
        Some e \<Rightarrow> Inl e
      | None \<Rightarrow> Inr (t\<lparr>year := y\<rparr>))"

text \<open>\<open>a < b\<close> on naive values: the fields in lexicographic order.\<close>

definition datetime_key :: "datetime \<Rightarrow> nat list" where
  "datetime_key t = [year t, month t, day t, hour t, minute t, second t, microsecond t]"

fun key_less :: "nat list \<Rightarrow> nat list \<Rightarrow> bool" where
  "key_less (x # xs) (y # ys) = (x < y \<or> (x = y \<and> key_less xs ys))"
| "key_less _ _ = False"

definition datetime_less :: "datetime \<Rightarrow> datetime \<Rightarrow> bool" where
  "datetime_less a b = key_less (datetime_key a) (datetime_key b)"

text \<open>
  \<open>(a - b).days\<close>: the difference is a \<open>timedelta\<close> normalised so that its seconds
  and microseconds are non-negative, hence its days are the floor of the difference.
\<close>

definition to_microseconds :: "datetime \<Rightarrow> int" where
  "to_microseconds t =
     ((toordinal t * 86400 + int (hour t * 3600 + minute t * 60 + second t)) * 1000000
        + int (microsecond t))"

definition sub_days :: "datetime \<Rightarrow> datetime \<Rightarrow> int" where
  "sub_days a b = (to_microseconds a - to_microseconds b) div (86400 * 1000000)"


subsection \<open>\<open>strptime\<close> and \<open>strftime\<close> with the format \<open>%d.%m.%Y\<close>\<close>

text \<open>
  \<open>strptime\<close> turns the format into the regular expression
  \<^verbatim>\<open>(?P<d>3[0-1]|[1-2]\d|0[1-9]|[1-9]| [1-9])\.(?P<m>1[0-2]|0[1-9]|[1-9])\.(?P<Y>\d\d\d\d)\<close>,
  matches it at the start of the text, refuses text left over after the match, converts
  the three groups with \<open>int\<close> and builds the date, which checks it.
  Each function below lists the ways one piece of the expression matches a prefix of the
  text, in the order of its alternatives, as the pair of the matched text and the rest;
  the first way through the whole expression is the match.
\<close>

definition alt_d :: "str \<Rightarrow> (str \<times> str) list" where
  "alt_d s =
     (case s of a # b # r \<Rightarrow>
        (if a = ch CHR ''3'' \<and> in_class CHR ''0'' CHR ''1'' b then [([a, b], r)] else []) @
        (if in_class CHR ''1'' CHR ''2'' a \<and> isdigit b then [([a, b], r)] else []) @
        (if a = ch CHR ''0'' \<and> in_class CHR ''1'' CHR ''9'' b then [([a, b], r)] else [])
      | _ \<Rightarrow> []) @
     (case s of a # r \<Rightarrow> (if in_class CHR ''1'' CHR ''9'' a then [([a], r)] else []) | _ \<Rightarrow> []) @
     (case s of a # b # r \<Rightarrow>
        (if a = ch CHR '' '' \<and> in_class CHR ''1'' CHR ''9'' b then [([a, b], r)] else [])
      | _ \<Rightarrow> [])"

definition alt_m :: "str \<Rightarrow> (str \<times> str) list" where
  "alt_m s =
     (case s of a # b # r \<Rightarrow>
        (if a = ch CHR ''1'' \<and> in_class CHR ''0'' CHR ''2'' b then [([a, b], r)] else []) @
        (if a = ch CHR ''0'' \<and> in_class CHR ''1'' CHR ''9'' b then [([a, b], r)] else [])
      | _ \<Rightarrow> []) @
     (case s of a # r \<Rightarrow> (if in_class CHR ''1'' CHR ''9'' a then [([a], r)] else []) | _ \<Rightarrow> [])"

definition alt_Y :: "str \<Rightarrow> (str \<times> str) list" where
  "alt_Y s =
     (case s of a # b # c # d # r \<Rightarrow>
        (if isdigit a \<and> isdigit b \<and> isdigit c \<and> isdigit d then [([a, b, c, d], r)] else [])
      | _ \<Rightarrow> [])"

definition lit_dot :: "str \<Rightarrow> str list" where
  "lit_dot s = (case s of a # r \<Rightarrow> (if a = ch CHR ''.'' then [r] else []) | _ \<Rightarrow> [])"

definition format_regex_match :: "str \<Rightarrow> ((str \<times> str \<times> str) \<times> str) option" where
  "format_regex_match s =
     (case concat (map (\<lambda>(d, r1). concat (map (\<lambda>r2. concat (map (\<lambda>(m, r3).
             concat (map (\<lambda>r4. map (\<lambda>(y, r5). ((d, m, y), r5)) (alt_Y r4)) (lit_dot r3)))
           (alt_m r2))) (lit_dot r1))) (alt_d s)) of
        [] \<Rightarrow> None
      | x # _ \<Rightarrow> Some x)"

definition midnight :: "nat \<Rightarrow> nat \<Rightarrow> nat \<Rightarrow> datetime" where
  "midnight y m d =
     \<lparr>year = y, month = m, day = d, hour = 0, minute = 0, second = 0, microsecond = 0\<rparr>"

text \<open>
  The three ways \<open>strptime\<close> fails, each a \<open>ValueError\<close>: the text does not match the
  expression of the format, text is left over after the match, the date does not exist.
\<close>

datatype strptime_failure = NoMatch | UnconvertedData str | BadDate error

definition strptime :: "str \<Rightarrow> strptime_failure + datetime" where
  "strptime s =
     (case format_regex_match s of
        None \<Rightarrow> Inl NoMatch
      | Some ((d, m, y), rest) \<Rightarrow>
          if rest \<noteq> [] then Inl (UnconvertedData rest)
          else (case check_date_fields (py_int y) (py_int m) (py_int d) of
                  Some e \<Rightarrow> Inl (BadDate e)
                | None \<Rightarrow> Inr (midnight (py_int y) (py_int m) (py_int d))))"

text \<open>
  \<open>strftime\<close> hands the format to the C library of the platform. Day and month come
  out as two digits everywhere. The year of \<open>%Y\<close> comes out as four digits, padded with
  zeros, on some platforms (the form the library's documentation shows: 0001, ..., 9999),
  and as the plain decimal number on others (glibc under CPython 3.11 renders the year
  999 as \<open>999\<close>). The platform is a parameter of \<open>strftime\<close> and of everything that
  renders a birthday.
\<close>

datatype platform = ZeroPaddedYear | PlainYear

definition format_Y :: "platform \<Rightarrow> nat \<Rightarrow> str" where
  "format_Y pf y =
     (case pf of
        ZeroPaddedYear \<Rightarrow>
          [digit_chr (y div 1000), digit_chr (y div 100), digit_chr (y div 10), digit_chr y]
      | PlainYear \<Rightarrow> py_str_nat y)"

definition strftime :: "platform \<Rightarrow> datetime \<Rightarrow> str" where
  "strftime pf t =
     [digit_chr (day t div 10), digit_chr (day t)] @ lit ''.'' @
     [digit_chr (month t div 10), digit_chr (month t)] @ lit ''.'' @
     format_Y pf (year t)"


section \<open>The fields: \<open>Name\<close>, \<open>Phone\<close>, \<open>Birthday\<close>\<close>

datatype name = Name (name_value: str)

datatype phone = Phone (phone_value: str)

datatype birthday = Birthday (birthday_value: datetime)

text \<open>
  \<^verbatim>\<open>re.fullmatch(r'\d{10}', value)\<close>: ten times a digit, then the end of the text.
\<close>

fun match_digits :: "nat \<Rightarrow> str \<Rightarrow> str option" where
  "match_digits 0 s = Some s"
| "match_digits (Suc n) [] = None"
| "match_digits (Suc n) (c # s) = (if isdigit c then match_digits n s else None)"

definition fullmatch_d10 :: "str \<Rightarrow> bool" where
  "fullmatch_d10 s = (match_digits 10 s = Some [])"

text \<open>
  A method that mutates its object returns the exception it raised, if any, and the
  object as the call leaves it.
\<close>

definition set_phone :: "phone \<Rightarrow> str \<Rightarrow> error option \<times> phone" where
  "set_phone p v =
     (if fullmatch_d10 v then (None, Phone v)
      else (Some (ValueError (lit ''Phone number must be exactly 10 digits.'')), p))"

text \<open>
  \<open>Phone(value)\<close>: the new object starts with no value and runs \<open>set_phone\<close>; when that
  raises there is no object.
\<close>

definition Phone_init :: "str \<Rightarrow> error + phone" where
  "Phone_init v =
     (case set_phone (Phone []) v of
        (Some e, _) \<Rightarrow> Inl e
      | (None, p) \<Rightarrow> Inr p)"

definition Phone_str :: "phone \<Rightarrow> str" where
  "Phone_str p = phone_value p"

text \<open>
  \<open>Birthday(value)\<close> catches the \<open>ValueError\<close> of \<open>strptime\<close>, whichever it is, and
  raises its own.
\<close>

definition Birthday_init :: "str \<Rightarrow> error + birthday" where
  "Birthday_init v =
     (case strptime v of
        Inl _ \<Rightarrow> Inl (ValueError (lit ''Invalid date format. Use DD.MM.YYYY''))
      | Inr t \<Rightarrow> Inr (Birthday t))"

definition Birthday_str :: "platform \<Rightarrow> birthday \<Rightarrow> str" where
  "Birthday_str pf b = strftime pf (birthday_value b)"


section \<open>\<open>Record\<close>: one contact\<close>

record contact =
  name :: name
  phones :: "phone list"
  birthday :: "birthday option"

definition Record_init :: "str \<Rightarrow> contact" where
  "Record_init n = \<lparr>name = Name n, phones = [], birthday = None\<rparr>"

definition add_phone :: "contact \<Rightarrow> str \<Rightarrow> error option \<times> contact" where
  "add_phone r p =
     (case Phone_init p of
        Inl e \<Rightarrow> (Some e, r)
      | Inr ph \<Rightarrow> (None, r\<lparr>phones := phones r @ [ph]\<rparr>))"

text \<open>
  The loops of \<open>remove_phone\<close> and \<open>edit_phone\<close> stop at the first phone whose value is
  the one looked for; \<open>None\<close> of the helper is the loop running to its end.
\<close>

fun remove_first :: "str \<Rightarrow> phone list \<Rightarrow> phone list option" where
  "remove_first v [] = None"
| "remove_first v (p # ps) =
     (if phone_value p = v then Some ps
      else map_option ((#) p) (remove_first v ps))"

definition remove_phone :: "contact \<Rightarrow> str \<Rightarrow> error option \<times> contact" where
  "remove_phone r v =
     (case remove_first v (phones r) of
        Some ps \<Rightarrow> (None, r\<lparr>phones := ps\<rparr>)
      | None \<Rightarrow> (Some (ValueError (lit ''Phone number not found.'')), r))"

fun edit_first :: "str \<Rightarrow> str \<Rightarrow> phone list \<Rightarrow> (error option \<times> phone list) option" where
  "edit_first old new [] = None"
| "edit_first old new (p # ps) =
     (if phone_value p = old
      then (case set_phone p new of (e, p') \<Rightarrow> Some (e, p' # ps))
      else map_option (\<lambda>(e, ps'). (e, p # ps')) (edit_first old new ps))"

definition edit_phone :: "contact \<Rightarrow> str \<Rightarrow> str \<Rightarrow> error option \<times> contact" where
  "edit_phone r old_phone new_phone =
     (case edit_first old_phone new_phone (phones r) of
        Some (e, ps) \<Rightarrow> (e, r\<lparr>phones := ps\<rparr>)
      | None \<Rightarrow> (Some (ValueError (lit ''Old phone number not found.'')), r))"

definition add_birthday :: "contact \<Rightarrow> str \<Rightarrow> error option \<times> contact" where
  "add_birthday r v =
     (case Birthday_init v of
        Inl e \<Rightarrow> (Some e, r)
      | Inr b \<Rightarrow> (None, r\<lparr>birthday := Some b\<rparr>))"

text \<open>
  \<open>days_to_birthday\<close> reads the clock once: \<open>today\<close>. The result is \<open>None\<close> without a
  birthday; either \<open>replace\<close> can raise.
\<close>

definition days_to_birthday :: "contact \<Rightarrow> datetime \<Rightarrow> error + int option" where
  "days_to_birthday r today =
     (case birthday r of
        None \<Rightarrow> Inr None
      | Some b \<Rightarrow>
          (case replace_year (birthday_value b) (year today) of
             Inl e \<Rightarrow> Inl e
           | Inr next_birthday \<Rightarrow>
               if datetime_less next_birthday today
               then (case replace_year next_birthday (year today + 1) of
                       Inl e \<Rightarrow> Inl e
                     | Inr next_birthday' \<Rightarrow> Inr (Some (sub_days next_birthday' today)))
               else Inr (Some (sub_days next_birthday today))))"

definition Record_str :: "platform \<Rightarrow> contact \<Rightarrow> str" where
  "Record_str pf r =
     (let phones_str = join (lit ''; '') (map Phone_str (phones r));
          birthday_str = (case birthday r of
                            Some b \<Rightarrow> lit '', Birthday: '' @ Birthday_str pf b
                          | None \<Rightarrow> [])
      in lit ''Contact name: '' @ name_value (name r) @ lit '', phones: '' @ phones_str @
         birthday_str)"


section \<open>\<open>AddressBook\<close>\<close>

text \<open>
  The dictionary \<open>data\<close> keeps its keys in insertion order: an association list.
  Storing under a key that is present replaces the value where it stands, storing under
  a new key appends, deleting removes the entry.
\<close>

type_synonym AddressBook = "(str \<times> contact) list"

fun dict_set :: "'k \<Rightarrow> 'v \<Rightarrow> ('k \<times> 'v) list \<Rightarrow> ('k \<times> 'v) list" where
  "dict_set k v [] = [(k, v)]"
| "dict_set k v ((k', v') # kvs) =
     (if k' = k then (k, v) # kvs else (k', v') # dict_set k v kvs)"

fun dict_del :: "'k \<Rightarrow> ('k \<times> 'v) list \<Rightarrow> ('k \<times> 'v) list" where
  "dict_del k [] = []"
| "dict_del k ((k', v') # kvs) = (if k' = k then kvs else (k', v') # dict_del k kvs)"

definition dict_get :: "('k \<times> 'v) list \<Rightarrow> 'k \<Rightarrow> 'v option" where
  "dict_get d k = map_of d k"

definition dict_in :: "'k \<Rightarrow> ('k \<times> 'v) list \<Rightarrow> bool" where
  "dict_in k d = (k \<in> set (map fst d))"

definition dict_values :: "('k \<times> 'v) list \<Rightarrow> 'v list" where
  "dict_values d = map snd d"

definition add_record :: "AddressBook \<Rightarrow> contact \<Rightarrow> AddressBook" where
  "add_record book r = dict_set (name_value (name r)) r book"

definition find :: "AddressBook \<Rightarrow> str \<Rightarrow> contact option" where
  "find book n = dict_get book n"

definition delete :: "AddressBook \<Rightarrow> str \<Rightarrow> error option \<times> AddressBook" where
  "delete book n =
     (if dict_in n book then (None, dict_del n book)
      else (Some (ValueError (lit ''Record not found.'')), book))"

text \<open>
  \<open>get_upcoming_birthdays\<close> reads the clock when it starts, a reading it never uses, and
  then \<open>days_to_birthday\<close> reads it again for every record that has a birthday. The
  parameter \<open>clock\<close> gives the readings of one call in their order: \<open>clock 0\<close> is the
  unused one, \<open>clock 1\<close> the reading for the first record with a birthday, and so on.
  The loop over the records carries the number of the next reading and the list it
  appends to; an entry is the pair of the name and the rendered birthday.
\<close>

fun upcoming_loop ::
  "platform \<Rightarrow> (nat \<Rightarrow> datetime) \<Rightarrow> nat \<Rightarrow> contact list \<Rightarrow> (str \<times> str) list \<Rightarrow>
     error + (str \<times> str) list" where
  "upcoming_loop pf clock k [] upcoming_birthdays = Inr upcoming_birthdays"
| "upcoming_loop pf clock k (r # rs) upcoming_birthdays =
     (case birthday r of
        None \<Rightarrow> upcoming_loop pf clock k rs upcoming_birthdays
      | Some b \<Rightarrow>
          (case days_to_birthday r (clock k) of
             Inl e \<Rightarrow> Inl e
           | Inr None \<Rightarrow> upcoming_loop pf clock (Suc k) rs upcoming_birthdays
           | Inr (Some days) \<Rightarrow>
               if days \<le> 7
               then upcoming_loop pf clock (Suc k) rs
                      (upcoming_birthdays @ [(name_value (name r), strftime pf (birthday_value b))])
               else upcoming_loop pf clock (Suc k) rs upcoming_birthdays))"

definition get_upcoming_birthdays ::
  "platform \<Rightarrow> AddressBook \<Rightarrow> (nat \<Rightarrow> datetime) \<Rightarrow> error + (str \<times> str) list" where
  "get_upcoming_birthdays pf book clock = upcoming_loop pf clock 1 (dict_values book) []"

definition AddressBook_str :: "platform \<Rightarrow> AddressBook \<Rightarrow> str" where
  "AddressBook_str pf book = join [10] (map (Record_str pf) (dict_values book))"


section \<open>The command loop\<close>

text \<open>\<open>user_input.strip().split()\<close>: the words between runs of whitespace.\<close>

definition strip :: "str \<Rightarrow> str" where
  "strip s = rev (dropWhile isspace (rev (dropWhile isspace s)))"

fun split_from :: "str \<Rightarrow> str \<Rightarrow> str list" where
  "split_from w [] = (if w = [] then [] else [w])"
| "split_from w (c # cs) =
     (if isspace c then (if w = [] then split_from [] cs else w # split_from [] cs)
      else split_from (w @ [c]) cs)"

definition split :: "str \<Rightarrow> str list" where
  "split s = split_from [] s"

definition parse_input :: "str \<Rightarrow> error + (str \<times> str list)" where
  "parse_input user_input =
     (let parts = split (strip user_input)
      in case parts of
           [] \<Rightarrow> Inl (IndexError (lit ''list index out of range''))
         | p # ps \<Rightarrow> Inr (p, ps))"

text \<open>
  The handlers under \<open>input_error\<close>: the decorator prints the message of an exception
  and goes on. A handler returns the exception it raised, if any, the lines it
  printed, and the book as it leaves it.
\<close>

definition error_message :: "error \<Rightarrow> str" where
  "error_message e = (case e of ValueError m \<Rightarrow> m | IndexError m \<Rightarrow> m)"

definition apostrophe :: str where
  "apostrophe = [39]"

definition input_error ::
  "error option \<times> str list \<times> AddressBook \<Rightarrow> str list \<times> AddressBook" where
  "input_error res =
     (case res of
        (Some e, out, book) \<Rightarrow> (out @ [error_message e], book)
      | (None, out, book) \<Rightarrow> (out, book))"

definition cmd_add_birthday ::
  "str list \<Rightarrow> AddressBook \<Rightarrow> error option \<times> str list \<times> AddressBook" where
  "cmd_add_birthday args book =
     (case args of
        n # b # _ \<Rightarrow>
          (case dict_get book n of
             Some r \<Rightarrow>
               (case add_birthday r b of
                  (Some e, r') \<Rightarrow> (Some e, [], dict_set n r' book)
                | (None, r') \<Rightarrow>
                    (None, [lit ''Birthday '' @ b @ lit '' added for '' @ n @ lit ''.''],
                     dict_set n r' book))
           | None \<Rightarrow> (None, [lit ''No contact found with name '' @ n @ lit ''.''], book))
      | _ \<Rightarrow> (Some (IndexError (lit ''list index out of range'')), [], book))"

definition cmd_show_birthday ::
  "platform \<Rightarrow> str list \<Rightarrow> AddressBook \<Rightarrow> error option \<times> str list \<times> AddressBook" where
  "cmd_show_birthday pf args book =
     (case args of
        n # _ \<Rightarrow>
          (case Option.bind (dict_get book n) birthday of
             Some b \<Rightarrow>
               (None, [n @ apostrophe @ lit ''s birthday is on '' @ Birthday_str pf b @ lit ''.''],
                book)
           | None \<Rightarrow> (None, [lit ''No birthday found for '' @ n @ lit ''.''], book))
      | _ \<Rightarrow> (Some (IndexError (lit ''list index out of range'')), [], book))"

definition cmd_birthdays ::
  "platform \<Rightarrow> str list \<Rightarrow> AddressBook \<Rightarrow> (nat \<Rightarrow> datetime) \<Rightarrow>
     error option \<times> str list \<times> AddressBook" where
  "cmd_birthdays pf args book clock =
     (case get_upcoming_birthdays pf book clock of
        Inl e \<Rightarrow> (Some e, [], book)
      | Inr upcoming \<Rightarrow>
          if upcoming \<noteq> []
          then (None, map (\<lambda>(n, b). n @ lit '' has a birthday on '' @ b @ lit ''.'') upcoming,
                book)
          else (None, [lit ''No upcoming birthdays in the next 7 days.''], book))"

text \<open>
  One turn of the loop of \<open>main\<close> on the line read: the lines printed, and how the loop
  goes on. \<open>Raised\<close> is an exception that nothing catches: the program ends with it.
  \<open>clock\<close> gives the readings of the clock during the turn, in their order.
\<close>

datatype control = Break | Next AddressBook | Raised error

definition main_turn ::
  "platform \<Rightarrow> AddressBook \<Rightarrow> (nat \<Rightarrow> datetime) \<Rightarrow> str \<Rightarrow> str list \<times> control" where
  "main_turn pf book clock user_input =
     (case parse_input user_input of
        Inl e \<Rightarrow> ([], Raised e)
      | Inr (command, args) \<Rightarrow>
          if command \<in> set [lit ''close'', lit ''exit''] then ([lit ''Good bye!''], Break)
          else if command = lit ''hello'' then ([lit ''How can I help you?''], Next book)
          else if command = lit ''add'' then
            (case args of
               n # ph # _ \<Rightarrow>
                 (case dict_get book n of
                    Some r \<Rightarrow>
                      (case add_phone r ph of
                         (Some e, _) \<Rightarrow> ([], Raised e)
                       | (None, r') \<Rightarrow>
                           ([lit ''Added phone '' @ ph @ lit '' to existing contact '' @ n @
                             lit ''.''],
                            Next (dict_set n r' book)))
                  | None \<Rightarrow>
                      (case add_phone (Record_init n) ph of
                         (Some e, _) \<Rightarrow> ([], Raised e)
                       | (None, record) \<Rightarrow>
                           ([lit ''Created new contact '' @ n @ lit '' with phone '' @ ph @
                             lit ''.''],
                            Next (add_record book record))))
             | _ \<Rightarrow> ([lit ''Please provide both name and phone number.''], Next book))
          else if command = lit ''change'' then
            (case args of
               n # old_phone # new_phone # _ \<Rightarrow>
                 (case dict_get book n of
                    Some r \<Rightarrow>
                      (case edit_phone r old_phone new_phone of
                         (None, r') \<Rightarrow>
                           ([lit ''Changed phone '' @ old_phone @ lit '' to '' @ new_phone @
                             lit '' for contact '' @ n @ lit ''.''], Next (dict_set n r' book))
                       | (Some (ValueError _), r') \<Rightarrow>
                           ([lit ''Phone number '' @ old_phone @ lit '' not found for contact '' @
                             n @ lit ''.''],
                            Next (dict_set n r' book))
                       | (Some e, _) \<Rightarrow> ([], Raised e))
                  | None \<Rightarrow> ([lit ''No contact found with name '' @ n @ lit ''.''], Next book))
             | _ \<Rightarrow> ([lit ''Please provide name, old phone, and new phone.''], Next book))
          else if command = lit ''phone'' then
            (case args of
               n # _ \<Rightarrow>
                 (case dict_get book n of
                    Some r \<Rightarrow>
                      ([n @ apostrophe @ lit ''s phone numbers: '' @
                        join (lit '', '') (map Phone_str (phones r)) @ lit ''.''], Next book)
                  | None \<Rightarrow> ([lit ''No contact found with name '' @ n @ lit ''.''], Next book))
             | _ \<Rightarrow> ([lit ''Please provide a name.''], Next book))
          else if command = lit ''all'' then
            (if book = [] then ([lit ''No contacts found.''], Next book)
             else ([AddressBook_str pf book], Next book))
          else if command = lit ''add-birthday'' then
            (if length args < 2 then ([lit ''Please provide both name and birthday.''], Next book)
             else (case input_error (cmd_add_birthday args book) of
                     (out, book') \<Rightarrow> (out, Next book')))
          else if command = lit ''show-birthday'' then
            (if length args < 1 then ([lit ''Please provide a name.''], Next book)
             else (case input_error (cmd_show_birthday pf args book) of
                     (out, book') \<Rightarrow> (out, Next book')))
          else if command = lit ''birthdays'' then
            (case input_error (cmd_birthdays pf args book clock) of
               (out, book') \<Rightarrow> (out, Next book'))
          else ([lit ''Invalid command.''], Next book))"

text \<open>
  The loop on the lines that \<open>input\<close> returns, each with the readings of the clock
  during its turn. When the lines are used up the program is waiting in \<open>input\<close>.
\<close>

datatype run = Exited "str list" | Crashed error "str list" | Waiting AddressBook "str list"

fun main_loop ::
  "platform \<Rightarrow> AddressBook \<Rightarrow> ((nat \<Rightarrow> datetime) \<times> str) list \<Rightarrow> str list \<Rightarrow> run" where
  "main_loop pf book [] out = Waiting book out"
| "main_loop pf book ((clock, user_input) # rest) out =
     (case main_turn pf book clock user_input of
        (printed, Break) \<Rightarrow> Exited (out @ printed)
      | (printed, Next book') \<Rightarrow> main_loop pf book' rest (out @ printed)
      | (printed, Raised e) \<Rightarrow> Crashed e (out @ printed))"

definition main :: "platform \<Rightarrow> ((nat \<Rightarrow> datetime) \<times> str) list \<Rightarrow> run" where
  "main pf inputs = main_loop pf [] inputs [lit ''Welcome to the assistant bot!'']"


section \<open>Notions the properties are stated with\<close>

text \<open>A list of pairs is a dictionary when no key occurs twice.\<close>

definition is_dict :: "('k \<times> 'v) list \<Rightarrow> bool" where
  "is_dict d = distinct (map fst d)"

text \<open>Every record of the book is stored under its own name.\<close>

definition key_name_consistent :: "AddressBook \<Rightarrow> bool" where
  "key_name_consistent book = (\<forall>(k, r) \<in> set book. name_value (name r) = k)"

text \<open>
  The operations on a book: \<open>add_record\<close>, \<open>delete\<close>, and a method of the record found
  under a name, which is mutated where it is stored. A method called on a name that is
  absent changes nothing. \<open>apply_op\<close> gives the book as the operation leaves it, whether
  it raised or not.
\<close>

datatype operation =
    AddRecord contact
  | Delete str
  | AddPhone str str
  | RemovePhone str str
  | EditPhone str str str
  | AddBirthday str str

definition on_record ::
  "AddressBook \<Rightarrow> str \<Rightarrow> (contact \<Rightarrow> error option \<times> contact) \<Rightarrow> AddressBook" where
  "on_record book n method =
     (case find book n of
        None \<Rightarrow> book
      | Some r \<Rightarrow> dict_set n (snd (method r)) book)"

fun apply_op :: "AddressBook \<Rightarrow> operation \<Rightarrow> AddressBook" where
  "apply_op book (AddRecord r) = add_record book r"
| "apply_op book (Delete n) = snd (delete book n)"
| "apply_op book (AddPhone n p) = on_record book n (\<lambda>r. add_phone r p)"
| "apply_op book (RemovePhone n p) = on_record book n (\<lambda>r. remove_phone r p)"
| "apply_op book (EditPhone n old new) = on_record book n (\<lambda>r. edit_phone r old new)"
| "apply_op book (AddBirthday n b) = on_record book n (\<lambda>r. add_birthday r b)"

text \<open>A real calendar date: a year from 1 to 9999, a month of it, a day of that month.\<close>

definition real_date :: "nat \<Rightarrow> nat \<Rightarrow> nat \<Rightarrow> bool" where
  "real_date y m d =
     (1 \<le> y \<and> y \<le> 9999 \<and> 1 \<le> m \<and> m \<le> 12 \<and> 1 \<le> d \<and> d \<le> days_in_month y m)"

text \<open>
  The days until the next birthday as the specification words them, on dates without a
  time of day: the birthday's month and day in the year of the reference date, a year
  later when that date is before the reference date, minus the reference date in whole
  days. The reference date is given as year, month and day.
\<close>

definition spec_days_until_next :: "datetime \<Rightarrow> nat \<Rightarrow> nat \<Rightarrow> nat \<Rightarrow> int" where
  "spec_days_until_next b y m d =
     (let composed = ymd2ord y (month b) (day b);
          reference = ymd2ord y m d
      in if composed < reference then ymd2ord (y + 1) (month b) (day b) - reference
         else composed - reference)"

text \<open>The digits \<open>0\<close> to \<open>9\<close>, which the form DD.MM.YYYY is written with.\<close>

definition is_ascii_digit :: "nat \<Rightarrow> bool" where
  "is_ascii_digit c = in_class CHR ''0'' CHR ''9'' c"


section \<open>Evaluating texts and dates\<close>

lemma lit_append: "lit a @ lit b = lit (a @ b)"
  and lit_append': "lit a @ lit b @ r = lit (a @ b) @ r"
  by (simp_all add: lit_def)

lemma lit_eq_iff: "lit a = lit b \<longleftrightarrow> a = b"
proof -
  have "inj ch" by (simp add: ch_def [abs_def] inj_on_def)
  then have "inj (map ch)" by simp
  then show ?thesis unfolding lit_def [abs_def] by (simp add: inj_eq)
qed

lemmas lit_simps = lit_append lit_append' lit_eq_iff

lemmas text_simps =
  lit_def ch_def in_class_def isdigit_def decimal_zero_def DECIMAL_ZEROS_def

lemmas parse_simps =
  strptime_def format_regex_match_def alt_d_def alt_m_def alt_Y_def lit_dot_def
  py_int_def decimal_def digit_val_def text_simps

lemmas date_simps =
  replace_year_def check_date_fields_def midnight_def MINYEAR_def MAXYEAR_def
  days_in_month_def DAYS_IN_MONTH_def datetime_less_def datetime_key_def
  sub_days_def to_microseconds_def toordinal_def ymd2ord_def days_before_year_def
  days_before_month_def DAYS_BEFORE_MONTH_def is_leap_def


section \<open>Phone numbers\<close>

lemma match_digits_iff:
  "match_digits n s = Some r \<longleftrightarrow> (\<exists>p. s = p @ r \<and> length p = n \<and> (\<forall>c\<in>set p. isdigit c))"
proof (induction n s rule: match_digits.induct)
  case (1 s)
  then show ?case by auto
next
  case (2 n)
  then show ?case by auto
next
  case (3 n c s)
  show ?case
  proof (cases "isdigit c")
    case True
    have "(\<exists>p. c # s = p @ r \<and> length p = Suc n \<and> (\<forall>x\<in>set p. isdigit x))
          \<longleftrightarrow> (\<exists>q. s = q @ r \<and> length q = n \<and> (\<forall>x\<in>set q. isdigit x))"
      (is "?L \<longleftrightarrow> ?R")
    proof
      assume ?L
      then obtain p where p: "c # s = p @ r" "length p = Suc n" "\<forall>x\<in>set p. isdigit x" by blast
      then obtain q where "p = c # q" by (cases p) auto
      with p show ?R by auto
    next
      assume ?R
      then obtain q where "s = q @ r" "length q = n" "\<forall>x\<in>set q. isdigit x" by blast
      with True have "c # s = (c # q) @ r \<and> length (c # q) = Suc n \<and> (\<forall>x\<in>set (c # q). isdigit x)"
        by simp
      then show ?L by blast
    qed
    with True 3 show ?thesis by simp
  next
    case False
    have "\<not> (\<exists>p. c # s = p @ r \<and> length p = Suc n \<and> (\<forall>x\<in>set p. isdigit x))"
    proof
      assume "\<exists>p. c # s = p @ r \<and> length p = Suc n \<and> (\<forall>x\<in>set p. isdigit x)"
      then obtain p where p: "c # s = p @ r" "length p = Suc n" "\<forall>x\<in>set p. isdigit x" by blast
      then obtain q where "p = c # q" by (cases p) auto
      with p False show False by auto
    qed
    with False show ?thesis by simp
  qed
qed

lemma fullmatch_d10_iff:
  "fullmatch_d10 s \<longleftrightarrow> length s = 10 \<and> (\<forall>c\<in>set s. isdigit c)"
  unfolding fullmatch_d10_def match_digits_iff by auto

lemma isdigit_iff: "isdigit c \<longleftrightarrow> (\<exists>z\<in>set DECIMAL_ZEROS. z \<le> c \<and> c < z + 10)"
  by (auto simp add: isdigit_def decimal_zero_def find_None_iff)

lemma isdigit_ascii: "is_ascii_digit c \<Longrightarrow> isdigit c"
  by (simp add: is_ascii_digit_def in_class_def ch_def isdigit_def decimal_zero_def
      DECIMAL_ZEROS_def)

lemma digit_val_ascii: "is_ascii_digit c \<Longrightarrow> digit_val c = c - 48"
  by (simp add: is_ascii_digit_def in_class_def ch_def digit_val_def decimal_zero_def
      DECIMAL_ZEROS_def)

text \<open>
  C2. Every string of exactly ten decimal digits makes a \<open>Phone\<close>, which renders as that
  string; every other string is refused with the \<open>ValueError\<close> of a malformed phone
  number. The decimal digits are those of the pattern of the code, \<open>isdigit\<close>: the
  digits \<open>0\<close> to \<open>9\<close> (lemma \<open>isdigit_ascii\<close>) and the decimal digits of the other
  scripts of Unicode (lemma \<open>isdigit_iff\<close>).
\<close>

theorem Phone_ten_digits:
  "(length s = 10 \<and> (\<forall>c\<in>set s. isdigit c) \<longrightarrow>
      (\<exists>p. Phone_init s = Inr p \<and> Phone_str p = s)) \<and>
   (\<not> (length s = 10 \<and> (\<forall>c\<in>set s. isdigit c)) \<longrightarrow>
      Phone_init s = Inl (ValueError (lit ''Phone number must be exactly 10 digits.'')))"
  by (simp add: Phone_init_def set_phone_def Phone_str_def fullmatch_d10_iff)

theorem Phone_ten_digits_witness:
  "(length (lit ''0123456789'') = 10 \<and> list_all isdigit (lit ''0123456789'')) \<and>
   Phone_init (lit ''0123456789'') = Inr (Phone (lit ''0123456789'')) \<and>
   Phone_str (Phone (lit ''0123456789'')) = lit ''0123456789'' \<and>
   (length [1632, 1633, 1634, 1635, 1636, 1637, 1638, 1639, 1640, 1641 :: nat] = 10 \<and>
    list_all isdigit [1632, 1633, 1634, 1635, 1636, 1637, 1638, 1639, 1640, 1641]) \<and>
   Phone_init [1632, 1633, 1634, 1635, 1636, 1637, 1638, 1639, 1640, 1641]
     = Inr (Phone [1632, 1633, 1634, 1635, 1636, 1637, 1638, 1639, 1640, 1641]) \<and>
   \<not> (length (lit ''12345'') = 10 \<and> list_all isdigit (lit ''12345'')) \<and>
   Phone_init (lit ''12345'') = Inl (ValueError (lit ''Phone number must be exactly 10 digits.'')) \<and>
   \<not> (length (lit ''012345678x'') = 10 \<and> list_all isdigit (lit ''012345678x'')) \<and>
   Phone_init (lit ''012345678x'')
     = Inl (ValueError (lit ''Phone number must be exactly 10 digits.'')) \<and>
   \<not> (length (178 # lit ''123456789'') = 10 \<and> list_all isdigit (178 # lit ''123456789'')) \<and>
   Phone_init (178 # lit ''123456789'')
     = Inl (ValueError (lit ''Phone number must be exactly 10 digits.''))"
proof -
  let ?arabic = "[1632, 1633, 1634, 1635, 1636, 1637, 1638, 1639, 1640, 1641 :: nat]"
  note ev = text_simps
  have h1: "length (lit ''0123456789'') = 10 \<and> (\<forall>c\<in>set (lit ''0123456789''). isdigit c)"
    by (simp add: ev)
  have h2: "length ?arabic = 10 \<and> (\<forall>c\<in>set ?arabic. isdigit c)"
    by (simp add: ev)
  have h3: "\<not> (length (lit ''12345'') = 10 \<and> (\<forall>c\<in>set (lit ''12345''). isdigit c))"
    by (simp add: lit_def)
  have h4: "\<not> (length (lit ''012345678x'') = 10 \<and> (\<forall>c\<in>set (lit ''012345678x''). isdigit c))"
    by (simp add: ev)
  have h5: "\<not> (length (178 # lit ''123456789'') = 10 \<and>
      (\<forall>c\<in>set (178 # lit ''123456789''). isdigit c))"
    by (simp add: ev)
  from Phone_ten_digits [of "lit ''0123456789''"] h1
  obtain p where p: "Phone_init (lit ''0123456789'') = Inr p" "Phone_str p = lit ''0123456789''"
    by blast
  from p(2) have "p = Phone (lit ''0123456789'')"
    by (cases p) (simp add: Phone_str_def)
  with p have g1: "Phone_init (lit ''0123456789'') = Inr (Phone (lit ''0123456789''))"
    "Phone_str (Phone (lit ''0123456789'')) = lit ''0123456789''"
    by simp_all
  from Phone_ten_digits [of ?arabic] h2
  obtain q where q: "Phone_init ?arabic = Inr q" "Phone_str q = ?arabic"
    by blast
  from q(2) have "q = Phone ?arabic"
    by (cases q) (simp add: Phone_str_def)
  with q have g2: "Phone_init ?arabic = Inr (Phone ?arabic)"
    by simp
  from Phone_ten_digits [of "lit ''12345''"] h3
  have g3: "Phone_init (lit ''12345'')
      = Inl (ValueError (lit ''Phone number must be exactly 10 digits.''))"
    by blast
  from Phone_ten_digits [of "lit ''012345678x''"] h4
  have g4: "Phone_init (lit ''012345678x'')
      = Inl (ValueError (lit ''Phone number must be exactly 10 digits.''))"
    by blast
  from Phone_ten_digits [of "178 # lit ''123456789''"] h5
  have g5: "Phone_init (178 # lit ''123456789'')
      = Inl (ValueError (lit ''Phone number must be exactly 10 digits.''))"
    by blast
  note l = h1 [unfolded list_all_iff [symmetric]] h2 [unfolded list_all_iff [symmetric]]
    h3 [unfolded list_all_iff [symmetric]] h4 [unfolded list_all_iff [symmetric]]
    h5 [unfolded list_all_iff [symmetric]]
  from l g1 g2 g3 g4 g5 show ?thesis by blast
qed

section \<open>Editing a phone\<close>

lemma edit_first_absent:
  "old \<notin> phone_value ` set ps \<Longrightarrow> edit_first old new ps = None"
  by (induction ps) auto

lemma edit_first_at:
  "old \<notin> phone_value ` set xs \<Longrightarrow> phone_value p = old \<Longrightarrow>
   edit_first old new (xs @ p # ys) =
     Some (fst (set_phone p new), xs @ snd (set_phone p new) # ys)"
  by (induction xs) (auto split: prod.splits)

lemma edit_first_malformed:
  "old \<in> phone_value ` set ps \<Longrightarrow> \<not> fullmatch_d10 new \<Longrightarrow>
   edit_first old new ps =
     Some (Some (ValueError (lit ''Phone number must be exactly 10 digits.'')), ps)"
  by (induction ps) (auto simp add: set_phone_def)

text \<open>
  C4. \<open>edit_phone\<close> replaces the first phone whose value is the old one: on the phones
  \<open>[1111111111]\<close> the call with \<open>1111111111\<close> and \<open>2222222222\<close> leaves
  \<open>[2222222222]\<close>, and in general the phones before the first match and after it stay.
  When no phone has the old value the call raises the \<open>ValueError\<close> of a missing phone
  and the record is unchanged; when a phone has it and the new value is malformed the call
  raises the \<open>ValueError\<close> of a malformed phone and the record is unchanged.
\<close>

theorem edit_phone_first_match:
  "(phones r = [Phone (lit ''1111111111'')] \<longrightarrow>
      edit_phone r (lit ''1111111111'') (lit ''2222222222'') = (None, r\<lparr>phones := [Phone (lit ''2222222222'')]\<rparr>)) \<and>
   (phones r = xs @ p # ys \<and> old \<notin> phone_value ` set xs \<and> phone_value p = old \<and>
    length new = 10 \<and> (\<forall>c\<in>set new. isdigit c) \<longrightarrow>
      edit_phone r old new = (None, r\<lparr>phones := xs @ Phone new # ys\<rparr>)) \<and>
   (old \<notin> phone_value ` set (phones r) \<longrightarrow>
      edit_phone r old new = (Some (ValueError (lit ''Old phone number not found.'')), r)) \<and>
   (old \<in> phone_value ` set (phones r) \<and> \<not> (length new = 10 \<and> (\<forall>c\<in>set new. isdigit c)) \<longrightarrow>
      edit_phone r old new = (Some (ValueError (lit ''Phone number must be exactly 10 digits.'')), r))"
proof (intro conjI impI)
  assume "phones r = [Phone (lit ''1111111111'')]"
  then show "edit_phone r (lit ''1111111111'') (lit ''2222222222'') = (None, r\<lparr>phones := [Phone (lit ''2222222222'')]\<rparr>)"
    by (simp add: edit_phone_def set_phone_def fullmatch_d10_iff text_simps)
next
  assume a: "phones r = xs @ p # ys \<and> old \<notin> phone_value ` set xs \<and> phone_value p = old \<and>
    length new = 10 \<and> (\<forall>c\<in>set new. isdigit c)"
  then have "fullmatch_d10 new" by (simp add: fullmatch_d10_iff)
  then have "set_phone p new = (None, Phone new)" by (simp add: set_phone_def)
  with a show "edit_phone r old new = (None, r\<lparr>phones := xs @ Phone new # ys\<rparr>)"
    by (simp add: edit_phone_def edit_first_at)
next
  assume "old \<notin> phone_value ` set (phones r)"
  then show "edit_phone r old new = (Some (ValueError (lit ''Old phone number not found.'')), r)"
    by (simp add: edit_phone_def edit_first_absent)
next
  assume a: "old \<in> phone_value ` set (phones r) \<and> \<not> (length new = 10 \<and> (\<forall>c\<in>set new. isdigit c))"
  then have "\<not> fullmatch_d10 new" by (simp add: fullmatch_d10_iff)
  with a show "edit_phone r old new = (Some (ValueError (lit ''Phone number must be exactly 10 digits.'')), r)"
    by (simp add: edit_phone_def edit_first_malformed)
qed


theorem edit_phone_first_match_witness:
  "edit_phone \<lparr>name = Name (lit ''Bob''), phones = [Phone (lit ''1111111111'')], birthday = None\<rparr>
     (lit ''1111111111'') (lit ''2222222222'')
     = (None, \<lparr>name = Name (lit ''Bob''), phones = [Phone (lit ''2222222222'')], birthday = None\<rparr>) \<and>
   edit_phone \<lparr>name = Name (lit ''Bob''),
       phones = [Phone (lit ''3333333333''), Phone (lit ''1111111111''), Phone (lit ''1111111111'')], birthday = None\<rparr>
     (lit ''1111111111'') (lit ''2222222222'')
     = (None, \<lparr>name = Name (lit ''Bob''),
          phones = [Phone (lit ''3333333333''), Phone (lit ''2222222222''), Phone (lit ''1111111111'')],
          birthday = None\<rparr>) \<and>
   edit_phone \<lparr>name = Name (lit ''Bob''), phones = [Phone (lit ''1111111111'')], birthday = None\<rparr>
     (lit ''4444444444'') (lit ''2222222222'')
     = (Some (ValueError (lit ''Old phone number not found.'')),
        \<lparr>name = Name (lit ''Bob''), phones = [Phone (lit ''1111111111'')], birthday = None\<rparr>) \<and>
   edit_phone \<lparr>name = Name (lit ''Bob''), phones = [Phone (lit ''1111111111'')], birthday = None\<rparr>
     (lit ''1111111111'') (lit ''22'')
     = (Some (ValueError (lit ''Phone number must be exactly 10 digits.'')),
        \<lparr>name = Name (lit ''Bob''), phones = [Phone (lit ''1111111111'')], birthday = None\<rparr>)"
  using
    edit_phone_first_match [of "\<lparr>name = Name (lit ''Bob''), phones = [Phone (lit ''1111111111'')], birthday = None\<rparr>"
      "[]" "Phone (lit ''1111111111'')" "[]" "lit ''4444444444''" "lit ''2222222222''"]
    edit_phone_first_match [of "\<lparr>name = Name (lit ''Bob''),
       phones = [Phone (lit ''3333333333''), Phone (lit ''1111111111''), Phone (lit ''1111111111'')], birthday = None\<rparr>"
      "[Phone (lit ''3333333333'')]" "Phone (lit ''1111111111'')" "[Phone (lit ''1111111111'')]" "lit ''1111111111''"
      "lit ''2222222222''"]
    edit_phone_first_match [of "\<lparr>name = Name (lit ''Bob''), phones = [Phone (lit ''1111111111'')], birthday = None\<rparr>"
      "[]" "Phone (lit ''1111111111'')" "[]" "lit ''1111111111''" "lit ''22''"]
  by (simp add: text_simps)


section \<open>The dictionary\<close>

lemma set_dict_del: "set (dict_del k d) \<subseteq> set d"
  by (induction d) (auto split: if_splits)

lemma filter_absent_key:
  "n \<notin> fst ` set d \<Longrightarrow> filter (\<lambda>kv. fst kv \<noteq> n) d = d"
  by (induction d) auto

lemma dict_del_filter:
  "is_dict d \<Longrightarrow> dict_del k d = filter (\<lambda>kv. fst kv \<noteq> k) d"
proof (induction d)
  case Nil
  then show ?case by simp
next
  case (Cons kv d)
  obtain k' v' where kv: "kv = (k', v')" by (cases kv)
  from Cons.prems kv have d: "is_dict d" and fresh: "k' \<notin> fst ` set d"
    by (simp_all add: is_dict_def)
  show ?case
  proof (cases "k' = k")
    case True
    with fresh have "filter (\<lambda>kv. fst kv \<noteq> k) d = d"
      by (simp add: filter_absent_key)
    with True kv show ?thesis by simp
  next
    case False
    with kv Cons.IH [OF d] show ?thesis by simp
  qed
qed

lemma set_dict_set: "set (dict_set k v d) \<subseteq> insert (k, v) (set d)"
  by (induction d) (auto split: if_splits)

lemma map_fst_dict_set:
  "map fst (dict_set k v d) = (if k \<in> fst ` set d then map fst d else map fst d @ [k])"
  by (induction d) (auto simp add: rev_image_eqI)

lemma keys_dict_set: "fst ` set (dict_set k v d) = insert k (fst ` set d)"
proof -
  have "set (map fst (dict_set k v d)) = insert k (set (map fst d))"
    unfolding map_fst_dict_set by auto
  then show ?thesis by simp
qed

lemma length_filter_present_key:
  "n \<in> fst ` set d \<Longrightarrow> distinct (map fst d) \<Longrightarrow>
   length (filter (\<lambda>kv. fst kv \<noteq> n) d) + 1 = length d"
proof (induction d)
  case Nil
  then show ?case by simp
next
  case (Cons kv d)
  show ?case
  proof (cases "fst kv = n")
    case True
    with Cons.prems have "n \<notin> fst ` set d" by auto
    with True show ?thesis by (simp add: filter_absent_key)
  next
    case False
    with Cons show ?thesis by auto
  qed
qed

lemma is_dict_dict_set: "is_dict d \<Longrightarrow> is_dict (dict_set k v d)"
proof (induction d)
  case Nil
  then show ?case by (simp add: is_dict_def)
next
  case (Cons kv d)
  obtain k' v' where kv: "kv = (k', v')" by (cases kv)
  from Cons.prems kv have d: "is_dict d" and fresh: "k' \<notin> fst ` set d"
    by (simp_all add: is_dict_def)
  show ?case
  proof (cases "k' = k")
    case True
    with kv Cons.prems show ?thesis by (simp add: is_dict_def)
  next
    case False
    from Cons.IH [OF d] have "distinct (map fst (dict_set k v d))" by (simp add: is_dict_def)
    moreover from fresh False have "k' \<notin> fst ` set (dict_set k v d)"
      by (simp add: keys_dict_set)
    ultimately show ?thesis using False kv by (simp add: is_dict_def)
  qed
qed

text \<open>
  C7. \<open>delete\<close> of a name that is no key of the book raises the \<open>ValueError\<close> of a
  missing record and leaves the book, hence its size, as it was. For a name that is a key
  it removes that entry and nothing else: the other entries stay, in their order, the name
  is no longer found, and the book is one entry shorter.
\<close>

theorem delete_absent_or_present:
  "(\<not> dict_in n book \<longrightarrow>
      delete book n = (Some (ValueError (lit ''Record not found.'')), book)) \<and>
   (dict_in n book \<and> is_dict book \<longrightarrow>
      delete book n = (None, filter (\<lambda>kv. fst kv \<noteq> n) book) \<and>
      find (snd (delete book n)) n = None \<and>
      (\<forall>k. k \<noteq> n \<longrightarrow> find (snd (delete book n)) k = find book k) \<and>
      length (snd (delete book n)) + 1 = length book)"
proof (intro conjI impI)
  assume "\<not> dict_in n book"
  then show "delete book n = (Some (ValueError (lit ''Record not found.'')), book)"
    by (simp add: delete_def)
next
  assume a: "dict_in n book \<and> is_dict book"
  then show eq: "delete book n = (None, filter (\<lambda>kv. fst kv \<noteq> n) book)"
    by (simp add: delete_def dict_del_filter)
  show "find (snd (delete book n)) n = None"
    unfolding eq find_def dict_get_def by (auto simp add: map_of_eq_None_iff)
  show "\<forall>k. k \<noteq> n \<longrightarrow> find (snd (delete book n)) k = find book k"
    unfolding eq find_def dict_get_def
    by (induction book) auto
  from a have "n \<in> fst ` set book" "distinct (map fst book)"
    by (simp_all add: dict_in_def is_dict_def)
  then have "length (filter (\<lambda>kv. fst kv \<noteq> n) book) + 1 = length book"
    by (rule length_filter_present_key)
  then show "length (snd (delete book n)) + 1 = length book"
    unfolding eq by simp
qed


theorem delete_absent_or_present_witness:
  "dict_in (lit ''Bob'') [(lit ''Alice'', Record_init (lit ''Alice'')), (lit ''Bob'', Record_init (lit ''Bob''))] \<and>
   is_dict [(lit ''Alice'', Record_init (lit ''Alice'')), (lit ''Bob'', Record_init (lit ''Bob''))] \<and>
   delete [(lit ''Alice'', Record_init (lit ''Alice'')), (lit ''Bob'', Record_init (lit ''Bob''))] (lit ''Bob'')
     = (None, [(lit ''Alice'', Record_init (lit ''Alice''))]) \<and>
   \<not> dict_in (lit ''Carol'') [(lit ''Alice'', Record_init (lit ''Alice'')), (lit ''Bob'', Record_init (lit ''Bob''))] \<and>
   delete [(lit ''Alice'', Record_init (lit ''Alice'')), (lit ''Bob'', Record_init (lit ''Bob''))] (lit ''Carol'')
     = (Some (ValueError (lit ''Record not found.'')),
        [(lit ''Alice'', Record_init (lit ''Alice'')), (lit ''Bob'', Record_init (lit ''Bob''))])"
  using
    delete_absent_or_present [of "lit ''Bob''"
      "[(lit ''Alice'', Record_init (lit ''Alice'')), (lit ''Bob'', Record_init (lit ''Bob''))]"]
    delete_absent_or_present [of "lit ''Carol''"
      "[(lit ''Alice'', Record_init (lit ''Alice'')), (lit ''Bob'', Record_init (lit ''Bob''))]"]
  by (simp add: dict_in_def is_dict_def lit_def ch_def)

section \<open>Key and name\<close>

lemma name_add_phone: "name (snd (add_phone r p)) = name r"
  by (simp add: add_phone_def split: sum.splits)

lemma name_remove_phone: "name (snd (remove_phone r p)) = name r"
  by (simp add: remove_phone_def split: option.splits)

lemma name_edit_phone: "name (snd (edit_phone r old new)) = name r"
  by (simp add: edit_phone_def split: option.splits prod.splits)

lemma name_add_birthday: "name (snd (add_birthday r b)) = name r"
  by (simp add: add_birthday_def split: sum.splits)

lemma consistent_dict_set:
  "key_name_consistent book \<Longrightarrow> name_value (name r) = k \<Longrightarrow>
   key_name_consistent (dict_set k r book)"
  using set_dict_set [of k r book] by (auto simp add: key_name_consistent_def)

lemma consistent_dict_del:
  "key_name_consistent book \<Longrightarrow> key_name_consistent (dict_del k book)"
  using set_dict_del [of k book] by (auto simp add: key_name_consistent_def)

lemma consistent_find:
  "key_name_consistent book \<Longrightarrow> find book n = Some r \<Longrightarrow> name_value (name r) = n"
  by (auto simp add: key_name_consistent_def find_def dict_get_def dest: map_of_SomeD)

lemma consistent_on_record:
  "key_name_consistent book \<Longrightarrow> (\<And>r. name (snd (method r)) = name r) \<Longrightarrow>
   key_name_consistent (on_record book n method)"
  by (auto simp add: on_record_def consistent_dict_set consistent_find split: option.splits)

lemma consistent_apply_op:
  "key_name_consistent book \<Longrightarrow> key_name_consistent (apply_op book op)"
proof (cases op)
  case (AddRecord r)
  assume "key_name_consistent book"
  with AddRecord show ?thesis by (simp add: add_record_def consistent_dict_set)
next
  case (Delete n)
  assume "key_name_consistent book"
  with Delete show ?thesis by (simp add: delete_def consistent_dict_del)
next
  case (AddPhone n p)
  assume "key_name_consistent book"
  with AddPhone show ?thesis by (simp add: consistent_on_record name_add_phone)
next
  case (RemovePhone n p)
  assume "key_name_consistent book"
  with RemovePhone show ?thesis by (simp add: consistent_on_record name_remove_phone)
next
  case (EditPhone n old new)
  assume "key_name_consistent book"
  with EditPhone show ?thesis by (simp add: consistent_on_record name_edit_phone)
next
  case (AddBirthday n b)
  assume "key_name_consistent book"
  with AddBirthday show ?thesis by (simp add: consistent_on_record name_add_birthday)
qed

lemma consistent_foldl:
  "key_name_consistent book \<Longrightarrow> key_name_consistent (foldl apply_op book ops)"
  by (induction ops arbitrary: book) (simp_all add: consistent_apply_op)

text \<open>
  C9. After any sequence of \<open>add_record\<close>, \<open>delete\<close> and the mutations of phones and
  birthday, starting from the empty book, every key of the book maps to a record whose
  name is that key.
\<close>

theorem key_name_invariant:
  "key_name_consistent (foldl apply_op [] ops)"
  by (rule consistent_foldl) (simp add: key_name_consistent_def)

theorem key_name_invariant_witness:
  "foldl apply_op []
     [AddRecord (Record_init (lit ''Bob'')), AddRecord (Record_init (lit ''Alice'')),
      AddPhone (lit ''Alice'') (lit ''0123456789''), AddBirthday (lit ''Alice'') (lit ''15.06.1990''), Delete (lit ''Bob''),
      EditPhone (lit ''Alice'') (lit ''0123456789'') (lit ''9999999999'')]
     = [(lit ''Alice'', \<lparr>name = Name (lit ''Alice''), phones = [Phone (lit ''9999999999'')],
                     birthday = Some (Birthday (midnight 1990 6 15))\<rparr>)] \<and>
   key_name_consistent
     [(lit ''Alice'', \<lparr>name = Name (lit ''Alice''), phones = [Phone (lit ''9999999999'')],
                   birthday = Some (Birthday (midnight 1990 6 15))\<rparr>)]"
proof -
  have run: "foldl apply_op []
     [AddRecord (Record_init (lit ''Bob'')), AddRecord (Record_init (lit ''Alice'')),
      AddPhone (lit ''Alice'') (lit ''0123456789''), AddBirthday (lit ''Alice'') (lit ''15.06.1990''), Delete (lit ''Bob''),
      EditPhone (lit ''Alice'') (lit ''0123456789'') (lit ''9999999999'')]
     = [(lit ''Alice'', \<lparr>name = Name (lit ''Alice''), phones = [Phone (lit ''9999999999'')],
                     birthday = Some (Birthday (midnight 1990 6 15))\<rparr>)]"
    by (simp add: add_record_def Record_init_def on_record_def find_def dict_get_def
        delete_def dict_in_def add_phone_def Phone_init_def edit_phone_def set_phone_def
        fullmatch_d10_iff add_birthday_def Birthday_init_def parse_simps date_simps)
  show ?thesis
    using key_name_invariant [of "[AddRecord (Record_init (lit ''Bob'')), AddRecord (Record_init (lit ''Alice'')),
      AddPhone (lit ''Alice'') (lit ''0123456789''), AddBirthday (lit ''Alice'') (lit ''15.06.1990''), Delete (lit ''Bob''),
      EditPhone (lit ''Alice'') (lit ''0123456789'') (lit ''9999999999'')]"]
    unfolding run by simp
qed


section \<open>Lines of the command loop\<close>

lemma strip_blank: "\<forall>c\<in>set s. isspace c \<Longrightarrow> strip s = []"
proof -
  assume "\<forall>c\<in>set s. isspace c"
  then have d: "dropWhile isspace s = []" by (induction s) simp_all
  show ?thesis unfolding strip_def d by simp
qed

text \<open>
  C10. On an input line that is empty or holds only whitespace \<open>parse_input\<close> raises
  \<open>IndexError\<close>: it takes the first of no words. Nothing in \<open>main\<close> catches it, so the
  loop ends with that exception, whatever lines would follow; it prints nothing for the
  line, in particular not \<open>Invalid command.\<close>, and does not go on.
\<close>

theorem blank_line_crashes:
  assumes "\<forall>c\<in>set user_input. isspace c"
  shows "parse_input user_input = Inl (IndexError (lit ''list index out of range'')) \<and>
         main_turn pf book clock user_input
           = ([], Raised (IndexError (lit ''list index out of range''))) \<and>
         main_loop pf book ((clock, user_input) # rest) out
           = Crashed (IndexError (lit ''list index out of range'')) out"
proof -
  from assms have "strip user_input = []" by (rule strip_blank)
  then have p: "parse_input user_input = Inl (IndexError (lit ''list index out of range''))"
    by (simp add: parse_input_def split_def)
  then have t: "main_turn pf book clock user_input
      = ([], Raised (IndexError (lit ''list index out of range'')))"
    by (simp add: main_turn_def)
  then have "main_loop pf book ((clock, user_input) # rest) out
      = Crashed (IndexError (lit ''list index out of range'')) out"
    by simp
  with p t show ?thesis by simp
qed

theorem blank_line_crashes_witness:
  "list_all isspace (lit ''   '') \<and>
   parse_input (lit ''   '') = Inl (IndexError (lit ''list index out of range'')) \<and>
   main ZeroPaddedYear
     [(\<lambda>k. midnight 2024 6 10, lit ''hello''), (\<lambda>k. midnight 2024 6 10, lit ''   ''),
      (\<lambda>k. midnight 2024 6 10, lit ''hello'')]
     = Crashed (IndexError (lit ''list index out of range''))
         [lit ''Welcome to the assistant bot!'', lit ''How can I help you?''] \<and>
   list_all isspace [] \<and>
   main ZeroPaddedYear [(\<lambda>k. midnight 2024 6 10, [])]
     = Crashed (IndexError (lit ''list index out of range''))
         [lit ''Welcome to the assistant bot!'']"
proof -
  have b: "\<forall>c\<in>set (lit ''   ''). isspace c"
    by (simp add: isspace_def WHITESPACE_def lit_def ch_def)
  have e: "\<forall>c\<in>set []. isspace c" by simp
  have p: "parse_input (lit ''hello'') = Inr (lit ''hello'', [])"
    by (simp add: parse_input_def split_def strip_def isspace_def WHITESPACE_def lit_def ch_def)
  have h: "main_turn ZeroPaddedYear [] (\<lambda>k. midnight 2024 6 10) (lit ''hello'')
      = ([lit ''How can I help you?''], Next [])"
    by (simp add: main_turn_def p lit_simps)
  note c1 = blank_line_crashes [OF b, of ZeroPaddedYear "[]" "\<lambda>k. midnight 2024 6 10"
      "[(\<lambda>k. midnight 2024 6 10, lit ''hello'')]"
      "[lit ''Welcome to the assistant bot!'', lit ''How can I help you?'']"]
  note c2 = blank_line_crashes [OF e, of ZeroPaddedYear "[]" "\<lambda>k. midnight 2024 6 10"
      "[]" "[lit ''Welcome to the assistant bot!'']"]
  from b e h c1 c2 show ?thesis
    by (simp add: main_def list_all_iff)
qed

text \<open>
  C6. From the empty book, the line \<open>add Alice 0123456789\<close> creates the contact Alice with
  that phone; the line \<open>add Alice 9999999999\<close> then appends to the record that exists, so
  that Alice has the two phones in this order; the line \<open>phone Alice\<close> then prints both,
  joined by a comma and a blank.
\<close>

theorem add_twice_then_phone:
  "main pf [(t1, lit ''add Alice 0123456789'')]
     = Waiting [(lit ''Alice'', \<lparr>name = Name (lit ''Alice''),
                                 phones = [Phone (lit ''0123456789'')], birthday = None\<rparr>)]
         [lit ''Welcome to the assistant bot!'',
          lit ''Created new contact Alice with phone 0123456789.''] \<and>
   main pf [(t1, lit ''add Alice 0123456789''), (t2, lit ''add Alice 9999999999'')]
     = Waiting [(lit ''Alice'', \<lparr>name = Name (lit ''Alice''),
                   phones = [Phone (lit ''0123456789''), Phone (lit ''9999999999'')],
                   birthday = None\<rparr>)]
         [lit ''Welcome to the assistant bot!'',
          lit ''Created new contact Alice with phone 0123456789.'',
          lit ''Added phone 9999999999 to existing contact Alice.''] \<and>
   main pf [(t1, lit ''add Alice 0123456789''), (t2, lit ''add Alice 9999999999''),
            (t3, lit ''phone Alice'')]
     = Waiting [(lit ''Alice'', \<lparr>name = Name (lit ''Alice''),
                   phones = [Phone (lit ''0123456789''), Phone (lit ''9999999999'')],
                   birthday = None\<rparr>)]
         [lit ''Welcome to the assistant bot!'',
          lit ''Created new contact Alice with phone 0123456789.'',
          lit ''Added phone 9999999999 to existing contact Alice.'',
          lit ''Alice'' @ apostrophe @ lit ''s phone numbers: '' @
            join (lit '', '') [lit ''0123456789'', lit ''9999999999''] @ lit ''.''] \<and>
   join (lit '', '') [lit ''0123456789'', lit ''9999999999''] = lit ''0123456789, 9999999999''"
proof -
  note sp = parse_input_def split_def strip_def isspace_def WHITESPACE_def lit_def ch_def
  have p1: "parse_input (lit ''add Alice 0123456789'')
      = Inr (lit ''add'', [lit ''Alice'', lit ''0123456789''])"
    by (simp add: sp)
  have p2: "parse_input (lit ''add Alice 9999999999'')
      = Inr (lit ''add'', [lit ''Alice'', lit ''9999999999''])"
    by (simp add: sp)
  have p3: "parse_input (lit ''phone Alice'') = Inr (lit ''phone'', [lit ''Alice''])"
    by (simp add: sp)
  have d1: "fullmatch_d10 (lit ''0123456789'')" and d2: "fullmatch_d10 (lit ''9999999999'')"
    by (simp_all add: fullmatch_d10_iff lit_def ch_def isdigit_def decimal_zero_def
        DECIMAL_ZEROS_def)
  have a1: "add_phone (Record_init (lit ''Alice'')) (lit ''0123456789'')
      = (None, \<lparr>name = Name (lit ''Alice''), phones = [Phone (lit ''0123456789'')],
                birthday = None\<rparr>)"
    by (simp add: add_phone_def Phone_init_def set_phone_def d1 Record_init_def)
  have a2: "add_phone \<lparr>name = Name (lit ''Alice''), phones = [Phone (lit ''0123456789'')],
                        birthday = None\<rparr> (lit ''9999999999'')
      = (None, \<lparr>name = Name (lit ''Alice''),
                phones = [Phone (lit ''0123456789''), Phone (lit ''9999999999'')],
                birthday = None\<rparr>)"
    by (simp add: add_phone_def Phone_init_def set_phone_def d2)
  have s1: "main_turn pf [] t1 (lit ''add Alice 0123456789'')
      = ([lit ''Created new contact Alice with phone 0123456789.''],
         Next [(lit ''Alice'', \<lparr>name = Name (lit ''Alice''),
                                 phones = [Phone (lit ''0123456789'')], birthday = None\<rparr>)])"
    by (simp add: main_turn_def p1 a1 dict_get_def add_record_def lit_simps)
  have s2: "main_turn pf [(lit ''Alice'', \<lparr>name = Name (lit ''Alice''),
                phones = [Phone (lit ''0123456789'')], birthday = None\<rparr>)]
               t2 (lit ''add Alice 9999999999'')
      = ([lit ''Added phone 9999999999 to existing contact Alice.''],
         Next [(lit ''Alice'', \<lparr>name = Name (lit ''Alice''),
                  phones = [Phone (lit ''0123456789''), Phone (lit ''9999999999'')],
                  birthday = None\<rparr>)])"
    by (simp add: main_turn_def p2 a2 dict_get_def lit_simps)
  have s3: "main_turn pf [(lit ''Alice'', \<lparr>name = Name (lit ''Alice''),
                  phones = [Phone (lit ''0123456789''), Phone (lit ''9999999999'')],
                  birthday = None\<rparr>)]
               t3 (lit ''phone Alice'')
      = ([lit ''Alice'' @ apostrophe @ lit ''s phone numbers: '' @
            join (lit '', '') [lit ''0123456789'', lit ''9999999999''] @ lit ''.''],
         Next [(lit ''Alice'', \<lparr>name = Name (lit ''Alice''),
                  phones = [Phone (lit ''0123456789''), Phone (lit ''9999999999'')],
                  birthday = None\<rparr>)])"
    by (simp add: main_turn_def p3 dict_get_def Phone_str_def lit_simps)
  show ?thesis
    by (simp add: main_def s1 s2 s3 lit_simps)
qed


section \<open>Days to the birthday\<close>

lemma born_15_06_1990:
  "add_birthday (Record_init (lit ''Bob'')) (lit ''15.06.1990'')
     = (None, \<lparr>name = Name (lit ''Bob''), phones = [], birthday = Some (Birthday (midnight 1990 6 15))\<rparr>)"
  by (simp add: add_birthday_def Birthday_init_def Record_init_def parse_simps date_simps)

lemma born_29_02_2000:
  "add_birthday (Record_init (lit ''Bob'')) (lit ''29.02.2000'')
     = (None, \<lparr>name = Name (lit ''Bob''), phones = [], birthday = Some (Birthday (midnight 2000 2 29))\<rparr>)"
  by (simp add: add_birthday_def Birthday_init_def Record_init_def parse_simps date_simps)

text \<open>
  What the specification words gives for the birthday 15.06.1990: 5 days on 10.06.2024, 360
  days on 20.06.2024, and no day at all on the birthday itself.
\<close>

lemma days_until_next_as_specified:
  "spec_days_until_next (midnight 1990 6 15) 2024 6 10 = 5 \<and>
   spec_days_until_next (midnight 1990 6 15) 2024 6 20 = 360 \<and>
   spec_days_until_next (midnight 1990 6 15) 2024 6 15 = 0"
  by (simp add: spec_days_until_next_def date_simps)

lemma days_to_birthday_at_midnight:
  "days_to_birthday (snd (add_birthday (Record_init (lit ''Bob'')) (lit ''15.06.1990''))) (midnight 2024 6 10)
     = Inr (Some 5) \<and>
   days_to_birthday (snd (add_birthday (Record_init (lit ''Bob'')) (lit ''15.06.1990''))) (midnight 2024 6 20)
     = Inr (Some 360)"
  unfolding born_15_06_1990
  by (simp add: days_to_birthday_def date_simps)

lemma days_to_birthday_later_in_the_day:
  assumes b: "birthday r = Some (Birthday (midnight 1990 6 15))"
    and t: "h < 24" "mi < 60" "s < 60" "us < 1000000"
  shows "days_to_birthday r
           \<lparr>year = 2024, month = 6, day = 10, hour = h, minute = mi, second = s, microsecond = us\<rparr>
         = Inr (Some (if h = 0 \<and> mi = 0 \<and> s = 0 \<and> us = 0 then 5 else 4))"
proof -
  let ?today = "\<lparr>year = 2024, month = 6, day = 10, hour = h, minute = mi, second = s,
                 microsecond = us\<rparr>"
  let ?next = "\<lparr>year = 2024, month = 6, day = 15, hour = 0, minute = 0, second = 0,
                 microsecond = 0\<rparr>"
  have r: "replace_year (midnight 1990 6 15) 2024 = Inr ?next"
    by (simp add: replace_year_def check_date_fields_def midnight_def MINYEAR_def MAXYEAR_def
        days_in_month_def DAYS_IN_MONTH_def)
  have l: "\<not> datetime_less ?next ?today"
    by (simp add: datetime_less_def datetime_key_def)
  have o1: "toordinal ?next = 739052"
    by (simp add: toordinal_def ymd2ord_def days_before_year_def days_before_month_def
        DAYS_BEFORE_MONTH_def is_leap_def)
  have o2: "toordinal ?today = 739047"
    by (simp add: toordinal_def ymd2ord_def days_before_year_def days_before_month_def
        DAYS_BEFORE_MONTH_def is_leap_def)
  define tod where "tod = int (h * 3600 + mi * 60 + s) * 1000000 + int us"
  have tod0: "0 \<le> tod" unfolding tod_def by simp
  have tod1: "tod < 86400000000" using t unfolding tod_def by simp
  have tod2: "tod = 0 \<longleftrightarrow> h = 0 \<and> mi = 0 \<and> s = 0 \<and> us = 0"
    unfolding tod_def by auto
  have m1: "to_microseconds ?next = 739052 * 86400000000"
    by (simp add: to_microseconds_def o1)
  have m2: "to_microseconds ?today = 739047 * 86400000000 + tod"
    by (simp add: to_microseconds_def o2 tod_def)
  have d: "sub_days ?next ?today = (432000000000 - tod) div 86400000000"
    by (simp add: sub_days_def m1 m2)
  have "(432000000000 - tod) div 86400000000 = (if tod = 0 then 5 else 4)"
  proof (cases "tod = 0")
    case True
    then show ?thesis by simp
  next
    case False
    with tod0 have pos: "0 < tod" by simp
    have "(432000000000 - tod) div 86400000000 = 4"
      by (rule int_div_pos_eq [where r = "86400000000 - tod"]) (use pos tod1 in simp_all)
    with False show ?thesis by simp
  qed
  with d tod2 have "sub_days ?next ?today = (if h = 0 \<and> mi = 0 \<and> s = 0 \<and> us = 0 then 5 else 4)"
    by simp
  with b r l show ?thesis
    by (simp add: days_to_birthday_def)
qed


text \<open>
  C1. With the birthday 15.06.1990, \<open>days_to_birthday\<close> is claimed to return 5 on
  10.06.2024 and 360 on 20.06.2024. The clock reading it compares and subtracts carries
  the time of day: at noon of 10.06.2024 it returns 4, at noon of 20.06.2024 it returns 359,
  and at noon of the birthday itself, 15.06.2024, it returns 364. The lemmas above show that
  the claimed numbers come out at midnight exactly, and at no later instant of 10.06.2024.
\<close>

theorem days_to_birthday_at_noon:
  "days_to_birthday (snd (add_birthday (Record_init (lit ''Bob'')) (lit ''15.06.1990'')))
     \<lparr>year = 2024, month = 6, day = 10, hour = 12, minute = 0, second = 0, microsecond = 0\<rparr>
     = Inr (Some 4) \<and>
   days_to_birthday (snd (add_birthday (Record_init (lit ''Bob'')) (lit ''15.06.1990'')))
     \<lparr>year = 2024, month = 6, day = 20, hour = 12, minute = 0, second = 0, microsecond = 0\<rparr>
     = Inr (Some 359) \<and>
   days_to_birthday (snd (add_birthday (Record_init (lit ''Bob'')) (lit ''15.06.1990'')))
     \<lparr>year = 2024, month = 6, day = 15, hour = 12, minute = 0, second = 0, microsecond = 0\<rparr>
     = Inr (Some 364)"
  unfolding born_15_06_1990
  by (simp add: days_to_birthday_def date_simps)

text \<open>
  C8. A birthday on the 29th of February: \<open>days_to_birthday\<close> raises \<open>ValueError\<close> when
  the clock reads a year that is no leap year (here 15.01.2023), and also in a leap year
  once the 29th of February has passed, since the year after is none (here 01.03.2024).
\<close>

theorem days_to_birthday_feb_29_raises:
  "add_birthday (Record_init (lit ''Bob'')) (lit ''29.02.2000'')
     = (None, \<lparr>name = Name (lit ''Bob''), phones = [], birthday = Some (Birthday (midnight 2000 2 29))\<rparr>) \<and>
   days_to_birthday (snd (add_birthday (Record_init (lit ''Bob'')) (lit ''29.02.2000'')))
     \<lparr>year = 2023, month = 1, day = 15, hour = 10, minute = 30, second = 0, microsecond = 0\<rparr>
     = Inl (ValueError (lit ''day is out of range for month'')) \<and>
   days_to_birthday (snd (add_birthday (Record_init (lit ''Bob'')) (lit ''29.02.2000'')))
     \<lparr>year = 2024, month = 3, day = 1, hour = 10, minute = 30, second = 0, microsecond = 0\<rparr>
     = Inl (ValueError (lit ''day is out of range for month''))"
  unfolding born_29_02_2000
  by (simp add: days_to_birthday_def date_simps)

lemma days_to_birthday_feb_29_common_year:
  assumes "birthday r = Some (Birthday t)" "month t = 2" "day t = 29"
    and "1 \<le> year today" "year today \<le> 9999" "\<not> is_leap (year today)"
  shows "days_to_birthday r today = Inl (ValueError (lit ''day is out of range for month''))"
  using assms
  by (simp add: days_to_birthday_def replace_year_def check_date_fields_def MINYEAR_def
      MAXYEAR_def days_in_month_def DAYS_IN_MONTH_def)


section \<open>Upcoming birthdays\<close>

text \<open>
  C3. \<open>get_upcoming_birthdays\<close> is claimed to list, for every book and reference date,
  exactly the records whose days to the birthday are at most 7. With the clock at noon of
  10.06.2024 throughout, it lists the record whose birthday, 18.06, is 8 days ahead and
  leaves out the record whose birthday is that very day: \<open>days_to_birthday\<close> gives them 7
  and 364, where the days counted as the specification words them are 8 and 0. And a
  record whose birthday is the 29th of February, read on 01.03.2023, makes it raise instead
  of returning a list.
\<close>

theorem upcoming_birthdays_at_noon_and_feb_29:
  "get_upcoming_birthdays pf
     [(lit ''Ann'', \<lparr>name = Name (lit ''Ann''), phones = [],
                     birthday = Some (Birthday (midnight 1990 6 18))\<rparr>),
      (lit ''Ben'', \<lparr>name = Name (lit ''Ben''), phones = [],
                     birthday = Some (Birthday (midnight 1990 6 10))\<rparr>)]
     (\<lambda>k. \<lparr>year = 2024, month = 6, day = 10, hour = 12, minute = 0, second = 0,
            microsecond = 0\<rparr>)
     = Inr [(lit ''Ann'', lit ''18.06.1990'')] \<and>
   days_to_birthday
     \<lparr>name = Name (lit ''Ann''), phones = [], birthday = Some (Birthday (midnight 1990 6 18))\<rparr>
     \<lparr>year = 2024, month = 6, day = 10, hour = 12, minute = 0, second = 0, microsecond = 0\<rparr>
     = Inr (Some 7) \<and>
   spec_days_until_next (midnight 1990 6 18) 2024 6 10 = 8 \<and>
   days_to_birthday
     \<lparr>name = Name (lit ''Ben''), phones = [], birthday = Some (Birthday (midnight 1990 6 10))\<rparr>
     \<lparr>year = 2024, month = 6, day = 10, hour = 12, minute = 0, second = 0, microsecond = 0\<rparr>
     = Inr (Some 364) \<and>
   spec_days_until_next (midnight 1990 6 10) 2024 6 10 = 0 \<and>
   get_upcoming_birthdays pf
     [(lit ''Bob'', \<lparr>name = Name (lit ''Bob''), phones = [],
                     birthday = Some (Birthday (midnight 2000 2 29))\<rparr>)]
     (\<lambda>k. \<lparr>year = 2023, month = 3, day = 1, hour = 9, minute = 0, second = 0,
            microsecond = 0\<rparr>)
     = Inl (ValueError (lit ''day is out of range for month''))"
proof -
  let ?ann = "\<lparr>name = Name (lit ''Ann''), phones = [],
                birthday = Some (Birthday (midnight 1990 6 18))\<rparr>"
  let ?ben = "\<lparr>name = Name (lit ''Ben''), phones = [],
                birthday = Some (Birthday (midnight 1990 6 10))\<rparr>"
  let ?bob = "\<lparr>name = Name (lit ''Bob''), phones = [],
                birthday = Some (Birthday (midnight 2000 2 29))\<rparr>"
  let ?noon = "\<lparr>year = 2024, month = 6, day = 10, hour = 12, minute = 0, second = 0,
                microsecond = 0\<rparr>"
  let ?march = "\<lparr>year = 2023, month = 3, day = 1, hour = 9, minute = 0, second = 0,
                 microsecond = 0\<rparr>"
  have a: "days_to_birthday ?ann ?noon = Inr (Some 7)"
    by (simp add: days_to_birthday_def date_simps)
  have b: "days_to_birthday ?ben ?noon = Inr (Some 364)"
    by (simp add: days_to_birthday_def date_simps)
  have c: "days_to_birthday ?bob ?march = Inl (ValueError (lit ''day is out of range for month''))"
    by (simp add: days_to_birthday_def date_simps)
  have sa: "spec_days_until_next (midnight 1990 6 18) 2024 6 10 = 8"
    by (simp add: spec_days_until_next_def date_simps)
  have sb: "spec_days_until_next (midnight 1990 6 10) 2024 6 10 = 0"
    by (simp add: spec_days_until_next_def date_simps)
  have r: "strftime pf (midnight 1990 6 18) = lit ''18.06.1990''"
    by (cases pf)
      (simp_all add: strftime_def format_Y_def py_str_nat_def digit_chr_def midnight_def
        lit_def ch_def)
  have u1: "get_upcoming_birthdays pf [(lit ''Ann'', ?ann), (lit ''Ben'', ?ben)] (\<lambda>k. ?noon)
      = Inr [(lit ''Ann'', lit ''18.06.1990'')]"
    by (simp add: get_upcoming_birthdays_def dict_values_def days_to_birthday_def date_simps
        r [unfolded midnight_def])
  have u2: "get_upcoming_birthdays pf [(lit ''Bob'', ?bob)] (\<lambda>k. ?march)
      = Inl (ValueError (lit ''day is out of range for month''))"
    by (simp add: get_upcoming_birthdays_def dict_values_def days_to_birthday_def date_simps)
  from u1 a sa b sb u2 show ?thesis by (intro conjI)
qed


section \<open>Birthdays as text\<close>

lemma ascii_digit_facts:
  assumes "is_ascii_digit c"
  shows "isdigit c" and "digit_val c = c - 48" and "digit_val c < 10"
    and "digit_chr (digit_val c) = c" and "c \<noteq> ch CHR ''.''" and "c \<noteq> ch CHR '' ''"
    and "48 \<le> c" and "c \<le> 57"
proof -
  from assms show r: "48 \<le> c" "c \<le> 57"
    by (simp_all add: is_ascii_digit_def in_class_def ch_def)
  from assms show "isdigit c" by (rule isdigit_ascii)
  from assms show v: "digit_val c = c - 48" by (rule digit_val_ascii)
  from r show "digit_val c < 10" unfolding v by simp
  from r show "digit_chr (digit_val c) = c" unfolding v by (simp add: digit_chr_def ch_def)
  from r show "c \<noteq> ch CHR ''.''" "c \<noteq> ch CHR '' ''" by (auto simp add: ch_def)
qed

lemma decimal_2: "decimal [a, b] = 10 * digit_val a + digit_val b"
  by (simp add: decimal_def)

lemma decimal_4:
  "decimal [a, b, c, d] = 1000 * digit_val a + 100 * digit_val b + 10 * digit_val c + digit_val d"
  by (simp add: decimal_def)

lemma py_int_digits: "is_ascii_digit c \<Longrightarrow> py_int (c # s) = decimal (c # s)"
  by (simp add: py_int_def ascii_digit_facts)

lemma alt_d_two_digits:
  assumes a: "is_ascii_digit a" and b: "is_ascii_digit b"
    and lo: "1 \<le> decimal [a, b]" and hi: "decimal [a, b] \<le> 31"
  shows "\<exists>more. alt_d (a # b # r) = ([a, b], r) # more"
proof -
  note fa = ascii_digit_facts [OF a] and fb = ascii_digit_facts [OF b]
  from lo hi fa(7,8) fb(7,8) consider
      "a = 51" "b = 48 \<or> b = 49"
    | "a = 49 \<or> a = 50"
    | "a = 48" "49 \<le> b"
    unfolding decimal_2 fa(2) fb(2) by arith
  then show ?thesis
  proof cases
    case 1
    then show ?thesis by (auto simp add: alt_d_def in_class_def ch_def)
  next
    case 2
    with fb(1) show ?thesis by (auto simp add: alt_d_def in_class_def ch_def)
  next
    case 3
    with fb(8) show ?thesis by (simp add: alt_d_def in_class_def ch_def)
  qed
qed

lemma alt_m_two_digits:
  assumes a: "is_ascii_digit a" and b: "is_ascii_digit b"
    and lo: "1 \<le> decimal [a, b]" and hi: "decimal [a, b] \<le> 12"
  shows "\<exists>more. alt_m (a # b # r) = ([a, b], r) # more"
proof -
  note fa = ascii_digit_facts [OF a] and fb = ascii_digit_facts [OF b]
  from lo hi fa(7,8) fb(7,8) consider
      "a = 49" "b \<le> 50"
    | "a = 48" "49 \<le> b"
    unfolding decimal_2 fa(2) fb(2) by arith
  then show ?thesis
  proof cases
    case 1
    with fb(7) show ?thesis by (simp add: alt_m_def in_class_def ch_def)
  next
    case 2
    with fb(8) show ?thesis by (simp add: alt_m_def in_class_def ch_def)
  qed
qed

lemma days_in_month_le_31: "1 \<le> m \<Longrightarrow> m \<le> 12 \<Longrightarrow> days_in_month y m \<le> 31"
proof -
  assume "1 \<le> m" "m \<le> 12"
  then have "m = 1 \<or> m = 2 \<or> m = 3 \<or> m = 4 \<or> m = 5 \<or> m = 6 \<or> m = 7 \<or> m = 8 \<or>
      m = 9 \<or> m = 10 \<or> m = 11 \<or> m = 12"
    by arith
  then show ?thesis
    by (auto simp add: days_in_month_def DAYS_IN_MONTH_def)
qed

lemma check_date_fields_real_date:
  "check_date_fields y m d = None \<longleftrightarrow> real_date y m d"
  by (auto simp add: check_date_fields_def real_date_def MINYEAR_def MAXYEAR_def)

lemma format_regex_match_DDMMYYYY:
  assumes dg: "is_ascii_digit d1" "is_ascii_digit d2" "is_ascii_digit m1" "is_ascii_digit m2"
      "is_ascii_digit y1" "is_ascii_digit y2" "is_ascii_digit y3" "is_ascii_digit y4"
    and d: "1 \<le> decimal [d1, d2]" "decimal [d1, d2] \<le> 31"
    and m: "1 \<le> decimal [m1, m2]" "decimal [m1, m2] \<le> 12"
  shows "format_regex_match [d1, d2, ch CHR ''.'', m1, m2, ch CHR ''.'', y1, y2, y3, y4]
           = Some (([d1, d2], [m1, m2], [y1, y2, y3, y4]), [])"
proof -
  from alt_d_two_digits [OF dg(1,2) d]
  obtain more1 where a1: "alt_d [d1, d2, ch CHR ''.'', m1, m2, ch CHR ''.'', y1, y2, y3, y4]
      = ([d1, d2], [ch CHR ''.'', m1, m2, ch CHR ''.'', y1, y2, y3, y4]) # more1"
    by blast
  from alt_m_two_digits [OF dg(3,4) m]
  obtain more2 where a2: "alt_m [m1, m2, ch CHR ''.'', y1, y2, y3, y4]
      = ([m1, m2], [ch CHR ''.'', y1, y2, y3, y4]) # more2"
    by blast
  have a3: "alt_Y [y1, y2, y3, y4] = [([y1, y2, y3, y4], [])]"
    using dg(5-8) by (simp add: alt_Y_def isdigit_ascii)
  show ?thesis
    by (simp add: format_regex_match_def a1 a2 a3 lit_dot_def)
qed

lemma strptime_DDMMYYYY:
  assumes dg: "is_ascii_digit d1" "is_ascii_digit d2" "is_ascii_digit m1" "is_ascii_digit m2"
      "is_ascii_digit y1" "is_ascii_digit y2" "is_ascii_digit y3" "is_ascii_digit y4"
    and real: "real_date (decimal [y1, y2, y3, y4]) (decimal [m1, m2]) (decimal [d1, d2])"
  shows "strptime [d1, d2, ch CHR ''.'', m1, m2, ch CHR ''.'', y1, y2, y3, y4]
           = Inr (midnight (decimal [y1, y2, y3, y4]) (decimal [m1, m2]) (decimal [d1, d2]))"
proof -
  from real have m: "1 \<le> decimal [m1, m2]" "decimal [m1, m2] \<le> 12"
    and d: "1 \<le> decimal [d1, d2]"
    and dim: "decimal [d1, d2] \<le> days_in_month (decimal [y1, y2, y3, y4]) (decimal [m1, m2])"
    by (simp_all add: real_date_def)
  from dim days_in_month_le_31 [OF m] have d31: "decimal [d1, d2] \<le> 31"
    by (rule order_trans)
  from real have chk: "check_date_fields (decimal [y1, y2, y3, y4]) (decimal [m1, m2])
      (decimal [d1, d2]) = None"
    by (simp add: check_date_fields_real_date)
  show ?thesis
    by (simp add: strptime_def format_regex_match_DDMMYYYY [OF dg d d31 m]
        py_int_digits dg chk)
qed


lemma two_digits_rendered:
  assumes "is_ascii_digit a" "is_ascii_digit b"
  shows "[digit_chr (decimal [a, b] div 10), digit_chr (decimal [a, b])] = [a, b]"
proof -
  note fa = ascii_digit_facts [OF assms(1)] and fb = ascii_digit_facts [OF assms(2)]
  from fb(3) have "decimal [a, b] div 10 = digit_val a" "decimal [a, b] mod 10 = digit_val b"
    unfolding decimal_2 by simp_all
  moreover have "digit_chr (decimal [a, b]) = digit_chr (decimal [a, b] mod 10)"
    by (simp add: digit_chr_def)
  ultimately show ?thesis using fa(4) fb(4) by simp
qed

lemma last_digit:
  fixes n d :: nat
  assumes "d < 10"
  shows "(10 * n + d) div 10 = n" and "(10 * n + d) mod 10 = d"
  using assms by simp_all

lemma div_100_1000:
  fixes n :: nat
  shows "n div 100 = n div 10 div 10" and "n div 1000 = n div 10 div 10 div 10"
    and "n div 10000 = n div 10 div 10 div 10 div 10"
  by (simp_all add: div_mult2_eq [symmetric])

lemma four_digits_split:
  fixes a b c d :: nat
  assumes "b < 10" "c < 10" "d < 10"
  shows "(10 * (10 * (10 * a + b) + c) + d) mod 10 = d"
    and "(10 * (10 * (10 * a + b) + c) + d) div 10 mod 10 = c"
    and "(10 * (10 * (10 * a + b) + c) + d) div 100 mod 10 = b"
    and "(10 * (10 * (10 * a + b) + c) + d) div 1000 = a"
  unfolding div_100_1000
  by (simp_all only: last_digit [OF assms(1)] last_digit [OF assms(2)] last_digit [OF assms(3)])

lemma four_digits_value:
  fixes a b c d :: nat
  assumes "b < 10" "c < 10" "d < 10"
  shows "(1000 * a + 100 * b + 10 * c + d) mod 10 = d"
    and "(1000 * a + 100 * b + 10 * c + d) div 10 mod 10 = c"
    and "(1000 * a + 100 * b + 10 * c + d) div 100 mod 10 = b"
    and "(1000 * a + 100 * b + 10 * c + d) div 1000 = a"
proof -
  have e: "1000 * a + 100 * b + 10 * c + d = 10 * (10 * (10 * a + b) + c) + d" by simp
  show "(1000 * a + 100 * b + 10 * c + d) mod 10 = d"
    and "(1000 * a + 100 * b + 10 * c + d) div 10 mod 10 = c"
    and "(1000 * a + 100 * b + 10 * c + d) div 100 mod 10 = b"
    and "(1000 * a + 100 * b + 10 * c + d) div 1000 = a"
    unfolding e by (rule four_digits_split [OF assms])+
qed

lemma digit_chr_mod: "digit_chr n = digit_chr (n mod 10)"
  by (simp add: digit_chr_def)

lemma format_Y_four_digits:
  assumes dg: "is_ascii_digit y1" "is_ascii_digit y2" "is_ascii_digit y3" "is_ascii_digit y4"
    and pf: "pf = ZeroPaddedYear \<or> 1000 \<le> decimal [y1, y2, y3, y4]"
  shows "format_Y pf (decimal [y1, y2, y3, y4]) = [y1, y2, y3, y4]"
proof -
  let ?Y = "decimal [y1, y2, y3, y4]"
  note f1 = ascii_digit_facts [OF dg(1)] and f2 = ascii_digit_facts [OF dg(2)]
    and f3 = ascii_digit_facts [OF dg(3)] and f4 = ascii_digit_facts [OF dg(4)]
  note v = four_digits_value [OF f2(3) f3(3) f4(3), of "digit_val y1", folded decimal_4]
  have c4: "digit_chr ?Y = y4"
    using digit_chr_mod [of ?Y] v(1) f4(4) by simp
  have c3: "digit_chr (?Y div 10) = y3"
    using digit_chr_mod [of "?Y div 10"] v(2) f3(4) by simp
  have c2: "digit_chr (?Y div 100) = y2"
    using digit_chr_mod [of "?Y div 100"] v(3) f2(4) by simp
  have c1: "digit_chr (?Y div 1000) = y1"
    using v(4) f1(4) by simp
  have padded: "format_Y ZeroPaddedYear ?Y = [y1, y2, y3, y4]"
    by (simp add: format_Y_def c1 c2 c3 c4)
  show ?thesis
  proof (cases pf)
    case ZeroPaddedYear
    with padded show ?thesis by simp
  next
    case PlainYear
    with pf have big: "1000 \<le> ?Y" by simp
    have "?Y div 10000 = ?Y div 1000 div 10"
      by (simp only: div_100_1000)
    with v(4) f1(3) have "?Y div 10000 = 0" by simp
    then have c0: "digit_chr (?Y div 10000) = ch CHR ''0''"
      by (simp add: digit_chr_def)
    have "digit_val y1 \<noteq> 0"
    proof
      assume "digit_val y1 = 0"
      with f2(3) f3(3) f4(3) have "?Y < 1000" unfolding decimal_4 by simp
      with big show False by simp
    qed
    with f1(2,7) have "y1 \<noteq> ch CHR ''0''" by (simp add: ch_def)
    with PlainYear show ?thesis
      by (simp add: format_Y_def py_str_nat_def c0 c1 c2 c3 c4)
  qed
qed

lemma strftime_DDMMYYYY:
  assumes dg: "is_ascii_digit d1" "is_ascii_digit d2" "is_ascii_digit m1" "is_ascii_digit m2"
      "is_ascii_digit y1" "is_ascii_digit y2" "is_ascii_digit y3" "is_ascii_digit y4"
    and pf: "pf = ZeroPaddedYear \<or> 1000 \<le> decimal [y1, y2, y3, y4]"
  shows "strftime pf (midnight (decimal [y1, y2, y3, y4]) (decimal [m1, m2]) (decimal [d1, d2]))
           = [d1, d2, ch CHR ''.'', m1, m2, ch CHR ''.'', y1, y2, y3, y4]"
  using two_digits_rendered [OF dg(1,2)] two_digits_rendered [OF dg(3,4)]
    format_Y_four_digits [OF dg(5-8) pf]
  by (simp add: strftime_def midnight_def lit_def)

text \<open>
  Where the platform renders the year as a plain number, no year before 1000 comes out as
  four characters.
\<close>

lemma format_Y_plain_below_1000:
  assumes "y < 1000"
  shows "length (format_Y PlainYear y) < 4"
proof -
  from assms have "y div 10000 = 0" "y div 1000 = 0" by simp_all
  then show ?thesis
    by (simp add: format_Y_def py_str_nat_def digit_chr_def)
qed


lemma lit_dot_mem: "r \<in> set (lit_dot s) \<longleftrightarrow> s = ch CHR ''.'' # r"
  by (auto simp add: lit_dot_def split: list.splits)

lemma alt_d_mem:
  "(d, r) \<in> set (alt_d (a # b # s)) \<Longrightarrow> (d = [a, b] \<and> r = s) \<or> (d = [a] \<and> r = b # s)"
  by (auto simp add: alt_d_def split: if_splits)

lemma alt_m_mem:
  "(m, r) \<in> set (alt_m (a # b # s)) \<Longrightarrow> (m = [a, b] \<and> r = s) \<or> (m = [a] \<and> r = b # s)"
  by (auto simp add: alt_m_def split: if_splits)

lemma alt_Y_mem:
  "(y, r) \<in> set (alt_Y [a, b, c, d]) \<Longrightarrow> y = [a, b, c, d] \<and> r = []"
  by (auto simp add: alt_Y_def split: if_splits)

lemma format_regex_match_Some:
  assumes "format_regex_match s = Some ((d, m, y), rest)"
  shows "\<exists>r1 r2 r3 r4. (d, r1) \<in> set (alt_d s) \<and> r2 \<in> set (lit_dot r1) \<and>
           (m, r3) \<in> set (alt_m r2) \<and> r4 \<in> set (lit_dot r3) \<and> (y, rest) \<in> set (alt_Y r4)"
proof -
  let ?ways = "concat (map (\<lambda>(d, r1). concat (map (\<lambda>r2. concat (map (\<lambda>(m, r3).
             concat (map (\<lambda>r4. map (\<lambda>(y, r5). ((d, m, y), r5)) (alt_Y r4)) (lit_dot r3)))
           (alt_m r2))) (lit_dot r1))) (alt_d s))"
  from assms obtain more where "?ways = ((d, m, y), rest) # more"
    unfolding format_regex_match_def by (cases ?ways) simp_all
  then have "((d, m, y), rest) \<in> set ?ways" by simp
  then show ?thesis by auto
qed

lemma format_regex_match_DDMMYYYY_groups:
  assumes dg: "is_ascii_digit d2" "is_ascii_digit m2"
    and mt: "format_regex_match [d1, d2, ch CHR ''.'', m1, m2, ch CHR ''.'', y1, y2, y3, y4]
               = Some ((d, m, y), rest)"
  shows "d = [d1, d2] \<and> m = [m1, m2] \<and> y = [y1, y2, y3, y4] \<and> rest = []"
proof -
  from format_regex_match_Some [OF mt] obtain r1 r2 r3 r4 where
    w: "(d, r1) \<in> set (alt_d [d1, d2, ch CHR ''.'', m1, m2, ch CHR ''.'', y1, y2, y3, y4])"
       "r2 \<in> set (lit_dot r1)" "(m, r3) \<in> set (alt_m r2)" "r4 \<in> set (lit_dot r3)"
       "(y, rest) \<in> set (alt_Y r4)"
    by blast
  from w(2) have r1: "r1 = ch CHR ''.'' # r2" by (simp add: lit_dot_mem)
  from alt_d_mem [OF w(1)] r1 ascii_digit_facts(5) [OF dg(1)]
  have d: "d = [d1, d2]" and r2: "r2 = [m1, m2, ch CHR ''.'', y1, y2, y3, y4]"
    by auto
  from w(4) have r3: "r3 = ch CHR ''.'' # r4" by (simp add: lit_dot_mem)
  from alt_m_mem [OF w(3) [unfolded r2]] r3 ascii_digit_facts(5) [OF dg(2)]
  have m: "m = [m1, m2]" and r4: "r4 = [y1, y2, y3, y4]"
    by auto
  from alt_Y_mem [OF w(5) [unfolded r4]] d m show ?thesis by simp
qed

lemma Birthday_init_error:
  "Birthday_init s = Inl e \<Longrightarrow> e = ValueError (lit ''Invalid date format. Use DD.MM.YYYY'')"
  by (auto simp add: Birthday_init_def split: sum.splits)

lemma Birthday_init_DDMMYYYY_real:
  assumes dg: "is_ascii_digit d1" "is_ascii_digit d2" "is_ascii_digit m1" "is_ascii_digit m2"
      "is_ascii_digit y1" "is_ascii_digit y2" "is_ascii_digit y3" "is_ascii_digit y4"
    and ok: "Birthday_init [d1, d2, ch CHR ''.'', m1, m2, ch CHR ''.'', y1, y2, y3, y4] = Inr b"
  shows "real_date (decimal [y1, y2, y3, y4]) (decimal [m1, m2]) (decimal [d1, d2])"
proof -
  let ?s = "[d1, d2, ch CHR ''.'', m1, m2, ch CHR ''.'', y1, y2, y3, y4]"
  from ok obtain t where t: "strptime ?s = Inr t"
    by (auto simp add: Birthday_init_def split: sum.splits)
  then obtain d m y rest where mt: "format_regex_match ?s = Some ((d, m, y), rest)"
    by (auto simp add: strptime_def split: option.splits)
  from format_regex_match_DDMMYYYY_groups [OF dg(2) dg(4) mt]
  have g: "d = [d1, d2]" "m = [m1, m2]" "y = [y1, y2, y3, y4]" "rest = []"
    by simp_all
  from t mt g have "check_date_fields (decimal [y1, y2, y3, y4]) (decimal [m1, m2])
      (decimal [d1, d2]) = None"
    by (auto simp add: strptime_def py_int_digits dg split: option.splits)
  then show ?thesis by (simp add: check_date_fields_real_date)
qed

text \<open>
  What holds of the texts of the form DD.MM.YYYY, two digits, a dot, two digits, a dot,
  four digits, the digits being \<open>0\<close> to \<open>9\<close>: one that denotes a real calendar date makes
  a \<open>Birthday\<close>, which renders as the same text when the year is at least 1000 or the
  platform pads the year; one that denotes no real calendar date is refused.
\<close>

lemma Birthday_DDMMYYYY:
  assumes "is_ascii_digit d1" "is_ascii_digit d2" "is_ascii_digit m1" "is_ascii_digit m2"
    "is_ascii_digit y1" "is_ascii_digit y2" "is_ascii_digit y3" "is_ascii_digit y4"
  shows
    "(real_date (decimal [y1, y2, y3, y4]) (decimal [m1, m2]) (decimal [d1, d2]) \<longrightarrow>
        Birthday_init [d1, d2, ch CHR ''.'', m1, m2, ch CHR ''.'', y1, y2, y3, y4]
          = Inr (Birthday (midnight (decimal [y1, y2, y3, y4]) (decimal [m1, m2])
                   (decimal [d1, d2])))) \<and>
     (real_date (decimal [y1, y2, y3, y4]) (decimal [m1, m2]) (decimal [d1, d2]) \<and>
      (pf = ZeroPaddedYear \<or> 1000 \<le> decimal [y1, y2, y3, y4]) \<longrightarrow>
        Birthday_str pf (Birthday (midnight (decimal [y1, y2, y3, y4]) (decimal [m1, m2])
            (decimal [d1, d2])))
          = [d1, d2, ch CHR ''.'', m1, m2, ch CHR ''.'', y1, y2, y3, y4]) \<and>
     (\<not> real_date (decimal [y1, y2, y3, y4]) (decimal [m1, m2]) (decimal [d1, d2]) \<longrightarrow>
        Birthday_init [d1, d2, ch CHR ''.'', m1, m2, ch CHR ''.'', y1, y2, y3, y4]
          = Inl (ValueError (lit ''Invalid date format. Use DD.MM.YYYY'')))"
proof (intro conjI impI)
  assume "real_date (decimal [y1, y2, y3, y4]) (decimal [m1, m2]) (decimal [d1, d2])"
  then show "Birthday_init [d1, d2, ch CHR ''.'', m1, m2, ch CHR ''.'', y1, y2, y3, y4]
      = Inr (Birthday (midnight (decimal [y1, y2, y3, y4]) (decimal [m1, m2]) (decimal [d1, d2])))"
    by (simp add: Birthday_init_def strptime_DDMMYYYY [OF assms])
next
  assume "real_date (decimal [y1, y2, y3, y4]) (decimal [m1, m2]) (decimal [d1, d2]) \<and>
      (pf = ZeroPaddedYear \<or> 1000 \<le> decimal [y1, y2, y3, y4])"
  then show "Birthday_str pf
      (Birthday (midnight (decimal [y1, y2, y3, y4]) (decimal [m1, m2]) (decimal [d1, d2])))
      = [d1, d2, ch CHR ''.'', m1, m2, ch CHR ''.'', y1, y2, y3, y4]"
    by (simp add: Birthday_str_def strftime_DDMMYYYY [OF assms])
next
  assume n: "\<not> real_date (decimal [y1, y2, y3, y4]) (decimal [m1, m2]) (decimal [d1, d2])"
  show "Birthday_init [d1, d2, ch CHR ''.'', m1, m2, ch CHR ''.'', y1, y2, y3, y4]
      = Inl (ValueError (lit ''Invalid date format. Use DD.MM.YYYY''))"
  proof (cases "Birthday_init [d1, d2, ch CHR ''.'', m1, m2, ch CHR ''.'', y1, y2, y3, y4]")
    case (Inl e)
    with Birthday_init_error [OF Inl] show ?thesis by simp
  next
    case (Inr b)
    from Birthday_init_DDMMYYYY_real [OF assms Inr] n show ?thesis by simp
  qed
qed

text \<open>Texts that \<open>Birthday\<close> refuses, one for each way \<open>strptime\<close> fails.\<close>

lemma Birthday_init_refused:
  "Birthday_init (lit ''15.06.1990 and more'')
     = Inl (ValueError (lit ''Invalid date format. Use DD.MM.YYYY''))"
  "strptime (lit ''15.06.1990 and more'') = Inl (UnconvertedData (lit '' and more''))"
  "strptime (lit ''15-06-1990'') = Inl NoMatch"
  "strptime [] = Inl NoMatch"
  "strptime (lit ''31.02.2024'') = Inl (BadDate (ValueError (lit ''day is out of range for month'')))"
  "strptime (lit ''01.01.0000'') = Inl (BadDate (ValueError (lit ''year 0 is out of range'')))"
  "strptime (lit ''00.01.2024'') = Inl NoMatch"
  "strptime (lit ''01.13.2024'') = Inl NoMatch"
  by (simp_all add: Birthday_init_def parse_simps date_simps py_str_nat_def digit_chr_def)

text \<open>
  C5. A text in the form DD.MM.YYYY that denotes a real calendar date is claimed to come
  back from \<open>Birthday\<close> as it went in, and a text that is no valid date in that form to be
  refused. The text 01.01.0999 is accepted and, where the platform renders the year as a
  plain number, comes back as 01.01.999, a text that \<open>Birthday\<close> itself refuses. And
  the texts 1.1.2000 and \<open> 1.01.2000\<close>, which are not of the form, are accepted, as the
  first of January of 2000, which renders as 01.01.2000 on every platform.
\<close>

theorem Birthday_texts_accepted_and_rendered:
  "Birthday_init (lit ''01.01.0999'') = Inr (Birthday (midnight 999 1 1)) \<and>
   Birthday_str PlainYear (Birthday (midnight 999 1 1)) = lit ''01.01.999'' \<and>
   Birthday_init (lit ''01.01.999'')
     = Inl (ValueError (lit ''Invalid date format. Use DD.MM.YYYY'')) \<and>
   Birthday_init (lit ''1.1.2000'') = Inr (Birthday (midnight 2000 1 1)) \<and>
   Birthday_init (lit '' 1.01.2000'') = Inr (Birthday (midnight 2000 1 1)) \<and>
   Birthday_str pf (Birthday (midnight 2000 1 1)) = lit ''01.01.2000''"
proof -
  have a: "Birthday_init (lit ''01.01.0999'') = Inr (Birthday (midnight 999 1 1))"
    by (simp add: Birthday_init_def parse_simps date_simps)
  have b: "Birthday_str PlainYear (Birthday (midnight 999 1 1)) = lit ''01.01.999''"
    by (simp add: Birthday_str_def strftime_def format_Y_def py_str_nat_def digit_chr_def
        midnight_def lit_def ch_def)
  have c: "Birthday_init (lit ''01.01.999'')
      = Inl (ValueError (lit ''Invalid date format. Use DD.MM.YYYY''))"
    by (simp add: Birthday_init_def parse_simps)
  have d: "Birthday_init (lit ''1.1.2000'') = Inr (Birthday (midnight 2000 1 1))"
    by (simp add: Birthday_init_def parse_simps date_simps)
  have e: "Birthday_init (lit '' 1.01.2000'') = Inr (Birthday (midnight 2000 1 1))"
    by (simp add: Birthday_init_def parse_simps date_simps)
  have f: "Birthday_str pf (Birthday (midnight 2000 1 1)) = lit ''01.01.2000''"
    by (cases pf)
      (simp_all add: Birthday_str_def strftime_def format_Y_def py_str_nat_def digit_chr_def
        midnight_def lit_def ch_def)
  from a b c d e f show ?thesis by (intro conjI)
qed

end
